theory Spec2Isabelle
  imports Main "HOL-Library.Word"
begin

unbundle bit_operations_syntax

section \<open>The Z80 context (mame\_z80/z80.h)\<close>

text \<open>
  A \<open>PAIR\<close> is the union of z80.h read through its 32-bit member \<open>d\<close>; with
  \<open>LSB_FIRST\<close> defined, \<open>w.l\<close> is the low half-word, \<open>b.l\<close> the low byte and
  \<open>b.h\<close> the byte above it.
\<close>

type_synonym PAIR = "32 word"

definition w_l :: "PAIR \<Rightarrow> 16 word" where
  "w_l p = ucast p"

definition b_l :: "PAIR \<Rightarrow> 8 word" where
  "b_l p = ucast p"

definition b_h :: "PAIR \<Rightarrow> 8 word" where
  "b_h p = ucast (drop_bit 8 p)"

definition set_w_l :: "PAIR \<Rightarrow> 16 word \<Rightarrow> PAIR" where
  "set_w_l p v = (p AND 0xFFFF0000) OR ucast v"

definition set_b_l :: "PAIR \<Rightarrow> 8 word \<Rightarrow> PAIR" where
  "set_b_l p v = (p AND 0xFFFFFF00) OR ucast v"

definition set_b_h :: "PAIR \<Rightarrow> 8 word \<Rightarrow> PAIR" where
  "set_b_h p v = (p AND 0xFFFF00FF) OR push_bit 8 (ucast v)"

text \<open>
  \<open>struct z80_device\<close>, field by field. Host pointers are addresses (\<open>nat\<close>, 0 is
  the null pointer) into \<open>host_mem\<close>, the bytes of the emulator's own memory that the
  \<open>read_pointers\<close> and \<open>write_pointers\<close> tables point into; the two tables have
  eight slots, read at \<open>addr >> 13\<close>. The C type \<open>int\<close> is a 32-bit word
  read with \<open>sint\<close>. Of \<open>options\<close> the context keeps what the core reads:
  \<open>gen.clock_divider\<close> and \<open>io_address_mask\<close>. The six cycle tables are the
  arrays the \<open>m_cc_*\<close> pointers name.
\<close>

record z80_device =
  clock_divider :: "32 word"
  io_address_mask :: "32 word"
  mem_pointers :: "nat \<Rightarrow> nat"
  next_int_pulse :: nat
  m_prvpc :: PAIR
  m_pc :: PAIR
  m_sp :: PAIR
  m_af :: PAIR
  m_bc :: PAIR
  m_de :: PAIR
  m_hl :: PAIR
  m_ix :: PAIR
  m_iy :: PAIR
  m_wz :: PAIR
  m_af2 :: PAIR
  m_bc2 :: PAIR
  m_de2 :: PAIR
  m_hl2 :: PAIR
  m_r :: "8 word"
  m_r2 :: "8 word"
  m_iff1 :: "8 word"
  m_iff2 :: "8 word"
  m_halt :: "8 word"
  m_im :: "8 word"
  m_i :: "8 word"
  m_nmi_state :: "8 word"
  m_nmi_pending :: "8 word"
  m_irq_state :: "8 word"
  m_wait_state :: "32 word"
  busreq :: "32 word"
  busack :: "32 word"
  reset :: "32 word"
  m_after_ei :: "8 word"
  m_after_ldair :: "8 word"
  m_ea :: "32 word"
  m_icount :: "32 word"
  current_cycle :: "32 word"
  nmi_start :: "32 word"
  int_pulse_start :: "32 word"
  int_pulse_end :: "32 word"
  bank_reg :: "16 word"
  m_rtemp :: "8 word"
  int_is_nmi :: "8 word"
  im2_vector :: "8 word"
  m_cc_op :: "8 word list"
  m_cc_cb :: "8 word list"
  m_cc_ed :: "8 word list"
  m_cc_xy :: "8 word list"
  m_cc_xycb :: "8 word list"
  m_cc_ex :: "8 word list"
  read_pointers :: "nat \<Rightarrow> nat"
  write_pointers :: "nat \<Rightarrow> nat"
  host_mem :: "nat \<Rightarrow> 8 word"

text \<open>
  Modelled from the spec: \<open>CYCLE_NEVER\<close> is a macro of ../backend.h, which is not
  among the sources; the spec calls it the sentinel "never". It is taken to be the
  largest 32-bit timestamp.
\<close>

definition CYCLE_NEVER :: "32 word" where
  "CYCLE_NEVER = 0xFFFFFFFF"

section \<open>Z80 memory access\<close>

text \<open>
  What the core calls but z80.c does not define. \<open>read_byte\<close> and \<open>write_byte\<close> are
  the map-resolving accessors of ../backend.h: they take the Z80 address and the context
  and run whatever callback the map names, so both may change the context.
  \<open>int_pulse_fun\<close> is the function the \<open>next_int_pulse\<close> pointer names when it is
  not null.
\<close>

record z80_backend =
  read_byte :: "32 word \<Rightarrow> z80_device \<Rightarrow> 8 word \<times> z80_device"
  write_byte :: "32 word \<Rightarrow> 8 word \<Rightarrow> z80_device \<Rightarrow> z80_device"
  int_pulse_fun :: "z80_device \<Rightarrow> z80_device"

text \<open>The \<open>PAIR *r\<close> arguments of z80.c point at one of the register pairs of the
  context.\<close>

datatype pair_reg = Reg_pc | Reg_sp | Reg_af | Reg_bc | Reg_de | Reg_hl | Reg_ix | Reg_iy | Reg_wz

fun get_pair :: "pair_reg \<Rightarrow> z80_device \<Rightarrow> PAIR" where
  "get_pair Reg_pc z = m_pc z"
| "get_pair Reg_sp z = m_sp z"
| "get_pair Reg_af z = m_af z"
| "get_pair Reg_bc z = m_bc z"
| "get_pair Reg_de z = m_de z"
| "get_pair Reg_hl z = m_hl z"
| "get_pair Reg_ix z = m_ix z"
| "get_pair Reg_iy z = m_iy z"
| "get_pair Reg_wz z = m_wz z"

fun set_pair :: "pair_reg \<Rightarrow> PAIR \<Rightarrow> z80_device \<Rightarrow> z80_device" where
  "set_pair Reg_pc v z = z\<lparr>m_pc := v\<rparr>"
| "set_pair Reg_sp v z = z\<lparr>m_sp := v\<rparr>"
| "set_pair Reg_af v z = z\<lparr>m_af := v\<rparr>"
| "set_pair Reg_bc v z = z\<lparr>m_bc := v\<rparr>"
| "set_pair Reg_de v z = z\<lparr>m_de := v\<rparr>"
| "set_pair Reg_hl v z = z\<lparr>m_hl := v\<rparr>"
| "set_pair Reg_ix v z = z\<lparr>m_ix := v\<rparr>"
| "set_pair Reg_iy v z = z\<lparr>m_iy := v\<rparr>"
| "set_pair Reg_wz v z = z\<lparr>m_wz := v\<rparr>"

text \<open>\<open>rm\<close> and \<open>wm\<close>: the fast path indexes the buffer of the 8 KiB page, the slow
  path goes through the map.\<close>

definition rm :: "z80_backend \<Rightarrow> z80_device \<Rightarrow> 16 word \<Rightarrow> 8 word \<times> z80_device" where
  "rm H z80 addr =
    (let index = unat (drop_bit 13 addr)
     in if read_pointers z80 index \<noteq> 0
        then (host_mem z80 (read_pointers z80 index + unat (addr AND 0x1FFF)), z80)
        else read_byte H (ucast addr) z80)"

definition wm :: "z80_backend \<Rightarrow> z80_device \<Rightarrow> 16 word \<Rightarrow> 8 word \<Rightarrow> z80_device" where
  "wm H z80 addr v =
    (let index = unat (drop_bit 13 addr)
     in if write_pointers z80 index \<noteq> 0
        then z80\<lparr>host_mem :=
               (host_mem z80)(write_pointers z80 index + unat (addr AND 0x1FFF) := v)\<rparr>
        else write_byte H (ucast addr) v z80)"

text \<open>
  \<open>rm16\<close> and \<open>wm16\<close> pass \<open>addr+1\<close> to a \<open>uint16_t\<close> parameter: the sum is
  formed in \<open>int\<close> and cut to 16 bits by the call.
\<close>

definition next_addr :: "16 word \<Rightarrow> 16 word" where
  "next_addr addr = ucast ((ucast addr :: 32 word) + 1)"

definition rm16 :: "z80_backend \<Rightarrow> z80_device \<Rightarrow> 16 word \<Rightarrow> pair_reg \<Rightarrow> z80_device" where
  "rm16 H z80 addr r =
    (let (lo, z1) = rm H z80 addr;
         z2 = set_pair r (set_b_l (get_pair r z1) lo) z1;
         (hi, z3) = rm H z2 (next_addr addr)
     in set_pair r (set_b_h (get_pair r z3) hi) z3)"

definition wm16 :: "z80_backend \<Rightarrow> z80_device \<Rightarrow> 16 word \<Rightarrow> pair_reg \<Rightarrow> z80_device" where
  "wm16 H z80 addr r =
    (let z1 = wm H z80 addr (b_l (get_pair r z80))
     in wm H z1 (next_addr addr) (b_h (get_pair r z1)))"

text \<open>\<open>rop\<close> fetches at \<open>PCD\<close> and advances \<open>PC\<close>; \<open>arg16\<close> fetches two bytes.\<close>

definition rop :: "z80_backend \<Rightarrow> z80_device \<Rightarrow> 8 word \<times> z80_device" where
  "rop H z80 =
    (let pc = m_pc z80;
         z1 = z80\<lparr>m_pc := set_w_l pc (w_l pc + 1)\<rparr>
     in rm H z1 (ucast pc))"


definition push :: "z80_backend \<Rightarrow> z80_device \<Rightarrow> pair_reg \<Rightarrow> z80_device" where
  "push H z80 r =
    (let z1 = z80\<lparr>m_sp := set_w_l (m_sp z80) (w_l (m_sp z80) - 2)\<rparr>
     in wm16 H z1 (ucast (m_sp z1)) r)"

definition halt :: "z80_device \<Rightarrow> z80_device" where
  "halt z80 = z80\<lparr>m_pc := set_w_l (m_pc z80) (w_l (m_pc z80) - 1), m_halt := 1\<rparr>"

definition leave_halt :: "z80_device \<Rightarrow> z80_device" where
  "leave_halt z80 =
    (if m_halt z80 \<noteq> 0
     then z80\<lparr>m_halt := 0, m_pc := set_w_l (m_pc z80) (w_l (m_pc z80) + 1)\<rparr>
     else z80)"

section \<open>Z80 cycle tables\<close>

definition cc_op :: "8 word list" where
  "cc_op =
    [4, 10, 7, 6, 4, 4, 7, 4, 4, 11, 7, 6, 4, 4, 7, 4,
     8, 10, 7, 6, 4, 4, 7, 4, 12, 11, 7, 6, 4, 4, 7, 4,
     7, 10, 16, 6, 4, 4, 7, 4, 7, 11, 16, 6, 4, 4, 7, 4,
     7, 10, 13, 6, 11, 11, 10, 4, 7, 11, 13, 6, 4, 4, 7, 4,
     4, 4, 4, 4, 4, 4, 7, 4, 4, 4, 4, 4, 4, 4, 7, 4,
     4, 4, 4, 4, 4, 4, 7, 4, 4, 4, 4, 4, 4, 4, 7, 4,
     4, 4, 4, 4, 4, 4, 7, 4, 4, 4, 4, 4, 4, 4, 7, 4,
     7, 7, 7, 7, 7, 7, 4, 7, 4, 4, 4, 4, 4, 4, 7, 4,
     4, 4, 4, 4, 4, 4, 7, 4, 4, 4, 4, 4, 4, 4, 7, 4,
     4, 4, 4, 4, 4, 4, 7, 4, 4, 4, 4, 4, 4, 4, 7, 4,
     4, 4, 4, 4, 4, 4, 7, 4, 4, 4, 4, 4, 4, 4, 7, 4,
     4, 4, 4, 4, 4, 4, 7, 4, 4, 4, 4, 4, 4, 4, 7, 4,
     5, 10, 10, 10, 10, 11, 7, 11, 5, 10, 10, 0, 10, 17, 7, 11,
     5, 10, 10, 11, 10, 11, 7, 11, 5, 4, 10, 11, 10, 0, 7, 11,
     5, 10, 10, 19, 10, 11, 7, 11, 5, 4, 10, 4, 10, 0, 7, 11,
     5, 10, 10, 4, 10, 11, 7, 11, 5, 6, 10, 4, 10, 0, 7, 11]"

definition cc_cb :: "8 word list" where
  "cc_cb =
    [8, 8, 8, 8, 8, 8, 15, 8, 8, 8, 8, 8, 8, 8, 15, 8,
     8, 8, 8, 8, 8, 8, 15, 8, 8, 8, 8, 8, 8, 8, 15, 8,
     8, 8, 8, 8, 8, 8, 15, 8, 8, 8, 8, 8, 8, 8, 15, 8,
     8, 8, 8, 8, 8, 8, 15, 8, 8, 8, 8, 8, 8, 8, 15, 8,
     8, 8, 8, 8, 8, 8, 12, 8, 8, 8, 8, 8, 8, 8, 12, 8,
     8, 8, 8, 8, 8, 8, 12, 8, 8, 8, 8, 8, 8, 8, 12, 8,
     8, 8, 8, 8, 8, 8, 12, 8, 8, 8, 8, 8, 8, 8, 12, 8,
     8, 8, 8, 8, 8, 8, 12, 8, 8, 8, 8, 8, 8, 8, 12, 8,
     8, 8, 8, 8, 8, 8, 15, 8, 8, 8, 8, 8, 8, 8, 15, 8,
     8, 8, 8, 8, 8, 8, 15, 8, 8, 8, 8, 8, 8, 8, 15, 8,
     8, 8, 8, 8, 8, 8, 15, 8, 8, 8, 8, 8, 8, 8, 15, 8,
     8, 8, 8, 8, 8, 8, 15, 8, 8, 8, 8, 8, 8, 8, 15, 8,
     8, 8, 8, 8, 8, 8, 15, 8, 8, 8, 8, 8, 8, 8, 15, 8,
     8, 8, 8, 8, 8, 8, 15, 8, 8, 8, 8, 8, 8, 8, 15, 8,
     8, 8, 8, 8, 8, 8, 15, 8, 8, 8, 8, 8, 8, 8, 15, 8,
     8, 8, 8, 8, 8, 8, 15, 8, 8, 8, 8, 8, 8, 8, 15, 8]"

definition cc_ed :: "8 word list" where
  "cc_ed =
    [8, 8, 8, 8, 8, 8, 8, 8, 8, 8, 8, 8, 8, 8, 8, 8,
     8, 8, 8, 8, 8, 8, 8, 8, 8, 8, 8, 8, 8, 8, 8, 8,
     8, 8, 8, 8, 8, 8, 8, 8, 8, 8, 8, 8, 8, 8, 8, 8,
     8, 8, 8, 8, 8, 8, 8, 8, 8, 8, 8, 8, 8, 8, 8, 8,
     12, 12, 15, 20, 8, 14, 8, 9, 12, 12, 15, 20, 8, 14, 8, 9,
     12, 12, 15, 20, 8, 14, 8, 9, 12, 12, 15, 20, 8, 14, 8, 9,
     12, 12, 15, 20, 8, 14, 8, 18, 12, 12, 15, 20, 8, 14, 8, 18,
     12, 12, 15, 20, 8, 14, 8, 8, 12, 12, 15, 20, 8, 14, 8, 8,
     8, 8, 8, 8, 8, 8, 8, 8, 8, 8, 8, 8, 8, 8, 8, 8,
     8, 8, 8, 8, 8, 8, 8, 8, 8, 8, 8, 8, 8, 8, 8, 8,
     16, 16, 16, 16, 8, 8, 8, 8, 16, 16, 16, 16, 8, 8, 8, 8,
     16, 16, 16, 16, 8, 8, 8, 8, 16, 16, 16, 16, 8, 8, 8, 8,
     8, 8, 8, 8, 8, 8, 8, 8, 8, 8, 8, 8, 8, 8, 8, 8,
     8, 8, 8, 8, 8, 8, 8, 8, 8, 8, 8, 8, 8, 8, 8, 8,
     8, 8, 8, 8, 8, 8, 8, 8, 8, 8, 8, 8, 8, 8, 8, 8,
     8, 8, 8, 8, 8, 8, 8, 8, 8, 8, 8, 8, 8, 8, 8, 8]"

definition cc_xy :: "8 word list" where
  "cc_xy =
    [8, 14, 11, 10, 8, 8, 11, 8, 8, 15, 11, 10, 8, 8, 11, 8,
     12, 14, 11, 10, 8, 8, 11, 8, 16, 15, 11, 10, 8, 8, 11, 8,
     11, 14, 20, 10, 8, 8, 11, 8, 11, 15, 20, 10, 8, 8, 11, 8,
     11, 14, 17, 10, 23, 23, 19, 8, 11, 15, 17, 10, 8, 8, 11, 8,
     8, 8, 8, 8, 8, 8, 19, 8, 8, 8, 8, 8, 8, 8, 19, 8,
     8, 8, 8, 8, 8, 8, 19, 8, 8, 8, 8, 8, 8, 8, 19, 8,
     8, 8, 8, 8, 8, 8, 19, 8, 8, 8, 8, 8, 8, 8, 19, 8,
     19, 19, 19, 19, 19, 19, 8, 19, 8, 8, 8, 8, 8, 8, 19, 8,
     8, 8, 8, 8, 8, 8, 19, 8, 8, 8, 8, 8, 8, 8, 19, 8,
     8, 8, 8, 8, 8, 8, 19, 8, 8, 8, 8, 8, 8, 8, 19, 8,
     8, 8, 8, 8, 8, 8, 19, 8, 8, 8, 8, 8, 8, 8, 19, 8,
     8, 8, 8, 8, 8, 8, 19, 8, 8, 8, 8, 8, 8, 8, 19, 8,
     9, 14, 14, 14, 14, 15, 11, 15, 9, 14, 14, 0, 14, 21, 11, 15,
     9, 14, 14, 15, 14, 15, 11, 15, 9, 8, 14, 15, 14, 4, 11, 15,
     9, 14, 14, 23, 14, 15, 11, 15, 9, 8, 14, 8, 14, 4, 11, 15,
     9, 14, 14, 8, 14, 15, 11, 15, 9, 10, 14, 8, 14, 4, 11, 15]"

definition cc_xycb :: "8 word list" where
  "cc_xycb =
    [23, 23, 23, 23, 23, 23, 23, 23, 23, 23, 23, 23, 23, 23, 23, 23,
     23, 23, 23, 23, 23, 23, 23, 23, 23, 23, 23, 23, 23, 23, 23, 23,
     23, 23, 23, 23, 23, 23, 23, 23, 23, 23, 23, 23, 23, 23, 23, 23,
     23, 23, 23, 23, 23, 23, 23, 23, 23, 23, 23, 23, 23, 23, 23, 23,
     20, 20, 20, 20, 20, 20, 20, 20, 20, 20, 20, 20, 20, 20, 20, 20,
     20, 20, 20, 20, 20, 20, 20, 20, 20, 20, 20, 20, 20, 20, 20, 20,
     20, 20, 20, 20, 20, 20, 20, 20, 20, 20, 20, 20, 20, 20, 20, 20,
     20, 20, 20, 20, 20, 20, 20, 20, 20, 20, 20, 20, 20, 20, 20, 20,
     23, 23, 23, 23, 23, 23, 23, 23, 23, 23, 23, 23, 23, 23, 23, 23,
     23, 23, 23, 23, 23, 23, 23, 23, 23, 23, 23, 23, 23, 23, 23, 23,
     23, 23, 23, 23, 23, 23, 23, 23, 23, 23, 23, 23, 23, 23, 23, 23,
     23, 23, 23, 23, 23, 23, 23, 23, 23, 23, 23, 23, 23, 23, 23, 23,
     23, 23, 23, 23, 23, 23, 23, 23, 23, 23, 23, 23, 23, 23, 23, 23,
     23, 23, 23, 23, 23, 23, 23, 23, 23, 23, 23, 23, 23, 23, 23, 23,
     23, 23, 23, 23, 23, 23, 23, 23, 23, 23, 23, 23, 23, 23, 23, 23,
     23, 23, 23, 23, 23, 23, 23, 23, 23, 23, 23, 23, 23, 23, 23, 23]"

definition cc_ex :: "8 word list" where
  "cc_ex =
    [0, 0, 0, 0, 0, 0, 0, 0, 0, 0, 0, 0, 0, 0, 0, 0,
     5, 0, 0, 0, 0, 0, 0, 0, 0, 0, 0, 0, 0, 0, 0, 0,
     5, 0, 0, 0, 0, 0, 0, 0, 5, 0, 0, 0, 0, 0, 0, 0,
     5, 0, 0, 0, 0, 0, 0, 0, 5, 0, 0, 0, 0, 0, 0, 0,
     0, 0, 0, 0, 0, 0, 0, 0, 0, 0, 0, 0, 0, 0, 0, 0,
     0, 0, 0, 0, 0, 0, 0, 0, 0, 0, 0, 0, 0, 0, 0, 0,
     0, 0, 0, 0, 0, 0, 0, 0, 0, 0, 0, 0, 0, 0, 0, 0,
     0, 0, 0, 0, 0, 0, 0, 0, 0, 0, 0, 0, 0, 0, 0, 0,
     0, 0, 0, 0, 0, 0, 0, 0, 0, 0, 0, 0, 0, 0, 0, 0,
     0, 0, 0, 0, 0, 0, 0, 0, 0, 0, 0, 0, 0, 0, 0, 0,
     0, 0, 0, 0, 0, 0, 0, 0, 0, 0, 0, 0, 0, 0, 0, 0,
     5, 5, 5, 5, 0, 0, 0, 0, 5, 5, 5, 5, 0, 0, 0, 0,
     6, 0, 0, 0, 7, 0, 0, 2, 6, 0, 0, 0, 7, 0, 0, 2,
     6, 0, 0, 0, 7, 0, 0, 2, 6, 0, 0, 0, 7, 0, 0, 2,
     6, 0, 0, 0, 7, 0, 0, 2, 6, 0, 0, 0, 7, 0, 0, 2,
     6, 0, 0, 0, 7, 0, 0, 2, 6, 0, 0, 0, 7, 0, 0, 2]"

text \<open>A lookup in a cycle table through its pointer; a table shorter than the index
  (a null or foreign pointer) has no entry there.\<close>

definition cc_at :: "8 word list \<Rightarrow> nat \<Rightarrow> 32 word option" where
  "cc_at tab i = (if i < length tab then Some (ucast (tab ! i)) else None)"

section \<open>Z80 interrupt entry and the run loop\<close>

definition take_interrupt :: "z80_backend \<Rightarrow> z80_device \<Rightarrow> z80_device option" where
  "take_interrupt H z80 =
    (let z1 = leave_halt (z80\<lparr>m_prvpc := 0xffff\<rparr>);
         z2 = z1\<lparr>m_iff2 := 0, m_iff1 := 0\<rparr>;
         irq_vector = (ucast (im2_vector z2) :: 32 word)
     in map_option (\<lambda>z. z\<lparr>m_wz := set_w_l (m_wz z) (ucast (m_pc z))\<rparr>)
       (if m_im z2 = 2 then
          (let irq_vector2 = (irq_vector AND 0xff) OR push_bit 8 (ucast (m_i z2));
               z3 = push H z2 Reg_pc;
               z4 = rm16 H z3 (ucast irq_vector2) Reg_pc
           in case (cc_at (m_cc_op z4) 0xcd, cc_at (m_cc_ex z4) 0xff) of
                (Some a, Some b) \<Rightarrow> Some (z4\<lparr>m_icount := m_icount z4 - (a + b)\<rparr>)
              | _ \<Rightarrow> None)
        else if m_im z2 = 1 then
          (let z3 = push H z2 Reg_pc;
               z4 = z3\<lparr>m_pc := 0x0038\<rparr>
           in case (cc_at (m_cc_op z4) 0xff, cc_at cc_ex 0xff) of
                (Some a, Some b) \<Rightarrow> Some (z4\<lparr>m_icount := m_icount z4 - (a + b)\<rparr>)
              | _ \<Rightarrow> None)
        else
          (case (if irq_vector \<noteq> 0 then
                   (if irq_vector AND 0xff0000 = 0xcd0000 then
                      (let z3 = push H z2 Reg_pc;
                           z4 = z3\<lparr>m_pc := irq_vector AND 0xffff\<rparr>
                       in map_option (\<lambda>a. z4\<lparr>m_icount := m_icount z4 - a\<rparr>)
                            (cc_at (m_cc_op z4) 0xcd))
                    else if irq_vector AND 0xff0000 = 0xc30000 then
                      (let z4 = z2\<lparr>m_pc := irq_vector AND 0xffff\<rparr>
                       in map_option (\<lambda>a. z4\<lparr>m_icount := m_icount z4 - a\<rparr>)
                            (cc_at (m_cc_op z4) 0xc3))
                    else
                      (let z3 = push H z2 Reg_pc;
                           z4 = z3\<lparr>m_pc := irq_vector AND 0x0038\<rparr>
                       in map_option (\<lambda>a. z4\<lparr>m_icount := m_icount z4 - a\<rparr>)
                            (cc_at (m_cc_op z4) 0xff)))
                 else Some z2) of
             None \<Rightarrow> None
           | Some z5 \<Rightarrow>
               map_option (\<lambda>b. z5\<lparr>m_icount := m_icount z5 - b\<rparr>) (cc_at (m_cc_ex z5) 0xff))))"

text \<open>
  \<open>EXEC(op, rop(z80))\<close>: fetch, charge \<open>m_cc_op[op]\<close>, enter the \<open>switch\<close>. The
  \<open>switch\<close> itself, with the handlers \<open>op_00\<close> ... \<open>op_ff\<close> and everything they
  call, is the argument \<open>ops\<close>; a handler that gives no result is \<open>None\<close>. The run
  loop is defined over an arbitrary \<open>ops\<close>; \<open>op_switch_fragment\<close> below gives the
  handlers of three opcodes as z80.c has them.
\<close>

type_synonym op_switch = "8 word \<Rightarrow> z80_device \<Rightarrow> z80_device option"

definition EXEC_op :: "z80_backend \<Rightarrow> op_switch \<Rightarrow> z80_device \<Rightarrow> z80_device option" where
  "EXEC_op H ops z80 =
    (let (op, z1) = rop H z80
     in case cc_at (m_cc_op z1) (unat op) of
          None \<Rightarrow> None
        | Some c \<Rightarrow> ops op (z1\<lparr>m_icount := m_icount z1 - c\<rparr>))"

text \<open>\<open>OP(op,00)\<close> (NOP), \<open>OP(op,76)\<close> (HALT) and \<open>OP(op,77)\<close> (LD (HL),A).\<close>

definition op_switch_fragment :: "z80_backend \<Rightarrow> op_switch" where
  "op_switch_fragment H op z80 =
    (if op = 0x00 then Some z80
     else if op = 0x76 then Some (halt z80)
     else if op = 0x77 then Some (wm H z80 (w_l (m_hl z80)) (b_h (m_af z80)))
     else None)"



text \<open>
  The \<open>int_icount\<close> computation that \<open>z80_run\<close> performs before the loop and again
  after an interrupt: the T-states left when the pulse starts. It divides by the clock
  divider, so a divider of zero has no result.
\<close>

definition INT_MIN :: "32 word" where
  "INT_MIN = 0x80000000"

definition pulse_icount :: "z80_device \<Rightarrow> 32 word \<Rightarrow> 32 word \<Rightarrow> 32 word option" where
  "pulse_icount z80 target_cycle int_icount =
    (if int_pulse_start z80 < target_cycle
     then (if int_pulse_start z80 < current_cycle z80 then Some (m_icount z80)
           else if clock_divider z80 = 0 then None
           else Some (((int_pulse_start z80 - current_cycle z80) + clock_divider z80 - 1)
                        div clock_divider z80))
     else Some int_icount)"

text \<open>One pass through the body of the \<open>do ... while\<close> of \<open>z80_run\<close>. Calling
  \<open>next_int_pulse\<close> through a null pointer has no result.\<close>

definition z80_run_body ::
  "z80_backend \<Rightarrow> op_switch \<Rightarrow> 32 word \<Rightarrow> z80_device \<times> 32 word \<Rightarrow> (z80_device \<times> 32 word) option" where
  "z80_run_body H ops target_cycle st =
    (let (z80, int_icount) = st
     in case (if sint (m_icount z80) \<le> sint int_icount \<and> m_iff1 z80 \<noteq> 0 \<and> m_after_ei z80 = 0
              then (case take_interrupt H z80 of
                      None \<Rightarrow> None
                    | Some z1 \<Rightarrow>
                        (let z2 = z1\<lparr>current_cycle :=
                                     target_cycle - m_icount z1 * clock_divider z1\<rparr>
                         in if next_int_pulse z2 = 0 then None
                            else (let z3 = int_pulse_fun H z2
                                  in map_option (Pair z3)
                                       (pulse_icount z3 target_cycle int_icount))))
              else Some (z80, int_icount)) of
          None \<Rightarrow> None
        | Some (z4, int_icount2) \<Rightarrow>
            (let z5 = z4\<lparr>m_after_ei := 0, m_after_ldair := 0\<rparr>;
                 z6 = z5\<lparr>m_prvpc := m_pc z5\<rparr>;
                 z7 = z6\<lparr>m_r := m_r z6 + 1\<rparr>
             in case EXEC_op H ops z7 of
                  None \<Rightarrow> None
                | Some z8 \<Rightarrow>
                    Some (if busreq z8 \<noteq> 0 then z8\<lparr>busack := 1, m_icount := 0\<rparr> else z8,
                          int_icount2)))"

text \<open>The loop: \<open>None\<close> when a pass has no result or the loop never leaves.\<close>

partial_function (option) z80_run_loop ::
  "z80_backend \<Rightarrow> op_switch \<Rightarrow> 32 word \<Rightarrow> z80_device \<times> 32 word \<Rightarrow> z80_device option" where
  "z80_run_loop H ops target_cycle st =
    (case z80_run_body H ops target_cycle st of
       None \<Rightarrow> None
     | Some st2 \<Rightarrow>
         if 0 < sint (m_icount (fst st2)) then z80_run_loop H ops target_cycle st2
         else Some (fst st2))"

text \<open>What \<open>z80_run\<close> does between its two early returns and the loop.\<close>

definition z80_run_setup ::
  "z80_backend \<Rightarrow> z80_device \<Rightarrow> 32 word \<Rightarrow> (z80_device \<times> 32 word) option" where
  "z80_run_setup H z80 target_cycle =
    (let z1 = (if next_int_pulse z80 \<noteq> 0 \<and>
                  (int_pulse_end z80 < current_cycle z80 \<or> int_pulse_end z80 = CYCLE_NEVER)
               then int_pulse_fun H z80 else z80)
     in if clock_divider z1 = 0 then None
        else (let z2 = z1\<lparr>m_icount :=
                         ((target_cycle - current_cycle z1) + clock_divider z1 - 1)
                           div clock_divider z1\<rparr>
              in map_option (Pair z2) (pulse_icount z2 target_cycle INT_MIN)))"

definition z80_run :: "z80_backend \<Rightarrow> op_switch \<Rightarrow> z80_device \<Rightarrow> 32 word \<Rightarrow> z80_device option" where
  "z80_run H ops z80 target_cycle =
    (if busack z80 \<noteq> 0 \<or> reset z80 \<noteq> 0 then Some (z80\<lparr>current_cycle := target_cycle\<rparr>)
     else if target_cycle \<le> current_cycle z80 then Some z80
     else case z80_run_setup H z80 target_cycle of
            None \<Rightarrow> None
          | Some st \<Rightarrow>
              (case z80_run_loop H ops target_cycle st of
                 None \<Rightarrow> None
               | Some z3 \<Rightarrow>
                   Some (z3\<lparr>current_cycle :=
                              target_cycle - m_icount z3 * clock_divider z3\<rparr>)))"

section \<open>Z80 reset, bus request, snapshots\<close>

definition z80_assert_reset ::
  "z80_backend \<Rightarrow> op_switch \<Rightarrow> z80_device \<Rightarrow> 32 word \<Rightarrow> z80_device option" where
  "z80_assert_reset H ops z80 cycle = map_option (\<lambda>z. z\<lparr>reset := 1\<rparr>) (z80_run H ops z80 cycle)"

definition z80_clear_reset ::
  "z80_backend \<Rightarrow> op_switch \<Rightarrow> z80_device \<Rightarrow> 32 word \<Rightarrow> z80_device option" where
  "z80_clear_reset H ops z80 cycle =
    (if reset z80 = 0 then Some z80
     else map_option
       (\<lambda>z. (let z1 = z\<lparr>m_pc := set_w_l (m_pc z) 0x0000, m_i := 0, m_r := 0, m_r2 := 0,
                        m_after_ei := 0, m_after_ldair := 0, m_iff1 := 0, m_iff2 := 0,
                        reset := 0\<rparr>
              in z1\<lparr>m_wz := set_w_l (m_wz z1) (ucast (m_pc z1))\<rparr>))
       (z80_run H ops z80 cycle))"

definition z80_assert_busreq :: "z80_device \<Rightarrow> 32 word \<Rightarrow> z80_device" where
  "z80_assert_busreq z80 cycle = z80\<lparr>busreq := 1\<rparr>"

definition z80_clear_busreq :: "z80_device \<Rightarrow> 32 word \<Rightarrow> z80_device" where
  "z80_clear_busreq z80 cycle = z80\<lparr>busreq := 0, busack := 0\<rparr>"

definition z80_get_busack ::
  "z80_backend \<Rightarrow> op_switch \<Rightarrow> z80_device \<Rightarrow> 32 word \<Rightarrow> (8 word \<times> z80_device) option" where
  "z80_get_busack H ops context cycle =
    map_option (\<lambda>z. (ucast (busack z), z)) (z80_run H ops context cycle)"

definition z80_assert_nmi :: "z80_device \<Rightarrow> 32 word \<Rightarrow> z80_device" where
  "z80_assert_nmi context cycle = context\<lparr>nmi_start := cycle\<rparr>"

text \<open>\<open>z80_serialize\<close> and \<open>z80_deserialize\<close> have empty bodies: the buffer and the
  context they are given are left as they were. The buffer type of ../serialize.h is not
  among the sources and stays a type parameter.\<close>

definition z80_serialize :: "z80_device \<Rightarrow> 'buf \<Rightarrow> 'buf" where
  "z80_serialize context buf = buf"

definition z80_deserialize :: "'buf \<Rightarrow> z80_device \<Rightarrow> z80_device" where
  "z80_deserialize buf vcontext = vcontext"

section \<open>Rebasing the cycle counters: \<open>z80_adjust_cycles\<close>\<close>

definition z80_adjust_cycles :: "z80_device \<Rightarrow> 32 word \<Rightarrow> z80_device" where
  "z80_adjust_cycles context deduction =
    (let c1 = (if current_cycle context < deduction
               then context\<lparr>current_cycle := 0\<rparr>
               else context\<lparr>current_cycle := current_cycle context - deduction\<rparr>)
     in if int_pulse_start c1 \<noteq> CYCLE_NEVER
        then (if int_pulse_end c1 < deduction
              then c1\<lparr>int_pulse_end := CYCLE_NEVER, int_pulse_start := CYCLE_NEVER\<rparr>
              else (let c2 = (if int_pulse_end c1 \<noteq> CYCLE_NEVER
                              then c1\<lparr>int_pulse_end := int_pulse_end c1 - deduction\<rparr>
                              else c1)
                    in if int_pulse_start c2 < deduction
                       then c2\<lparr>int_pulse_start := 0\<rparr>
                       else c2\<lparr>int_pulse_start := int_pulse_start c2 - deduction\<rparr>))
        else c1)"

text \<open>The context \<open>calloc(1, sizeof(z80_context))\<close> returns: every byte zero.\<close>

definition z80_calloc :: z80_device where
  "z80_calloc = \<lparr>clock_divider = 0, io_address_mask = 0, mem_pointers = (\<lambda>_. 0),
     next_int_pulse = 0, m_prvpc = 0, m_pc = 0, m_sp = 0, m_af = 0, m_bc = 0, m_de = 0,
     m_hl = 0, m_ix = 0, m_iy = 0, m_wz = 0, m_af2 = 0, m_bc2 = 0, m_de2 = 0, m_hl2 = 0,
     m_r = 0, m_r2 = 0, m_iff1 = 0, m_iff2 = 0, m_halt = 0, m_im = 0, m_i = 0,
     m_nmi_state = 0, m_nmi_pending = 0, m_irq_state = 0, m_wait_state = 0, busreq = 0,
     busack = 0, reset = 0, m_after_ei = 0, m_after_ldair = 0, m_ea = 0, m_icount = 0,
     current_cycle = 0, nmi_start = 0, int_pulse_start = 0, int_pulse_end = 0, bank_reg = 0,
     m_rtemp = 0, int_is_nmi = 0, im2_vector = 0, m_cc_op = [], m_cc_cb = [], m_cc_ed = [],
     m_cc_xy = [], m_cc_xycb = [], m_cc_ex = [], read_pointers = (\<lambda>_. 0),
     write_pointers = (\<lambda>_. 0), host_mem = (\<lambda>_. 0)\<rparr>"

text \<open>Three contexts with latched timestamps: a pulse window ahead of the deduction,
  one wholly before it, and none scheduled.\<close>

definition adjust_ctx_ahead :: z80_device where
  "adjust_ctx_ahead = z80_calloc\<lparr>current_cycle := 1000, nmi_start := 600,
     int_pulse_start := 700, int_pulse_end := 900\<rparr>"

definition adjust_ctx_past :: z80_device where
  "adjust_ctx_past = z80_calloc\<lparr>current_cycle := 1000, nmi_start := 600,
     int_pulse_start := 100, int_pulse_end := 300\<rparr>"

definition adjust_ctx_never :: z80_device where
  "adjust_ctx_never = z80_calloc\<lparr>current_cycle := 400, nmi_start := 600,
     int_pulse_start := CYCLE_NEVER, int_pulse_end := CYCLE_NEVER\<rparr>"

lemma clamp_sub: "unat (if (a::32 word) < d then 0 else a - d) = unat a - unat d"
  by (auto simp: word_less_nat_alt unat_sub word_le_nat_alt not_less)

lemma adjust_current_cycle:
  "current_cycle (z80_adjust_cycles c d) =
     (if current_cycle c < d then 0 else current_cycle c - d)"
  by (simp add: z80_adjust_cycles_def Let_def)

lemma adjust_int_pulse_start:
  "int_pulse_start (z80_adjust_cycles c d) =
     (if int_pulse_start c = CYCLE_NEVER \<or> int_pulse_end c < d then CYCLE_NEVER
      else if int_pulse_start c < d then 0 else int_pulse_start c - d)"
  by (simp add: z80_adjust_cycles_def Let_def)

lemma adjust_int_pulse_end:
  "int_pulse_end (z80_adjust_cycles c d) =
     (if int_pulse_start c = CYCLE_NEVER then int_pulse_end c
      else if int_pulse_end c < d then CYCLE_NEVER
      else if int_pulse_end c = CYCLE_NEVER then CYCLE_NEVER else int_pulse_end c - d)"
  by (simp add: z80_adjust_cycles_def Let_def)

lemma adjust_nmi_start: "nmi_start (z80_adjust_cycles c d) = nmi_start c"
  by (simp add: z80_adjust_cycles_def Let_def)

lemma adjust_frame:
  "z80_adjust_cycles c d =
     c\<lparr>current_cycle := current_cycle (z80_adjust_cycles c d),
       int_pulse_start := int_pulse_start (z80_adjust_cycles c d),
       int_pulse_end := int_pulse_end (z80_adjust_cycles c d)\<rparr>"
  by (simp add: z80_adjust_cycles_def Let_def)

text \<open>
  Claim C5, as the code has it. \<open>z80_adjust_cycles\<close> lowers \<open>current_cycle\<close> by the
  deduction and stops at zero. When a pulse is scheduled (\<open>int_pulse_start\<close> is not
  \<open>CYCLE_NEVER\<close>): a window that ends before the deduction is invalidated, both ends
  becoming \<open>CYCLE_NEVER\<close>; otherwise \<open>int_pulse_start\<close> is lowered and stops at zero,
  and \<open>int_pulse_end\<close> is lowered unless it is \<open>CYCLE_NEVER\<close>. When no pulse is
  scheduled both ends stay as they are. \<open>nmi_start\<close> and every other field are not
  written.
\<close>

theorem z80_adjust_cycles_rebases:
  "unat (current_cycle (z80_adjust_cycles c d)) = unat (current_cycle c) - unat d \<and>
   nmi_start (z80_adjust_cycles c d) = nmi_start c \<and>
   (int_pulse_start c = CYCLE_NEVER \<longrightarrow>
      int_pulse_start (z80_adjust_cycles c d) = CYCLE_NEVER \<and>
      int_pulse_end (z80_adjust_cycles c d) = int_pulse_end c) \<and>
   (int_pulse_start c \<noteq> CYCLE_NEVER \<and> int_pulse_end c < d \<longrightarrow>
      int_pulse_start (z80_adjust_cycles c d) = CYCLE_NEVER \<and>
      int_pulse_end (z80_adjust_cycles c d) = CYCLE_NEVER) \<and>
   (int_pulse_start c \<noteq> CYCLE_NEVER \<and> \<not> int_pulse_end c < d \<longrightarrow>
      unat (int_pulse_start (z80_adjust_cycles c d)) = unat (int_pulse_start c) - unat d \<and>
      int_pulse_end (z80_adjust_cycles c d) =
        (if int_pulse_end c = CYCLE_NEVER then CYCLE_NEVER else int_pulse_end c - d)) \<and>
   z80_adjust_cycles c d =
     c\<lparr>current_cycle := current_cycle (z80_adjust_cycles c d),
       int_pulse_start := int_pulse_start (z80_adjust_cycles c d),
       int_pulse_end := int_pulse_end (z80_adjust_cycles c d)\<rparr>"
proof -
  have 1: "unat (current_cycle (z80_adjust_cycles c d)) = unat (current_cycle c) - unat d"
    unfolding adjust_current_cycle by (rule clamp_sub)
  have 2: "int_pulse_start c \<noteq> CYCLE_NEVER \<and> \<not> int_pulse_end c < d \<longrightarrow>
      unat (int_pulse_start (z80_adjust_cycles c d)) = unat (int_pulse_start c) - unat d"
    using clamp_sub[of "int_pulse_start c" d] by (simp add: adjust_int_pulse_start)
  show ?thesis
    using 1 2 adjust_frame[of c d]
    by (simp add: adjust_nmi_start adjust_int_pulse_end adjust_int_pulse_start)
qed

theorem z80_adjust_cycles_rebases_witness:
  "int_pulse_start adjust_ctx_ahead \<noteq> CYCLE_NEVER \<and> \<not> int_pulse_end adjust_ctx_ahead < 500 \<and>
   unat (current_cycle (z80_adjust_cycles adjust_ctx_ahead 500)) = 500 \<and>
   unat (int_pulse_start (z80_adjust_cycles adjust_ctx_ahead 500)) = 200 \<and>
   int_pulse_end (z80_adjust_cycles adjust_ctx_ahead 500) = 400 \<and>
   int_pulse_start adjust_ctx_past \<noteq> CYCLE_NEVER \<and> int_pulse_end adjust_ctx_past < 500 \<and>
   int_pulse_start (z80_adjust_cycles adjust_ctx_past 500) = CYCLE_NEVER \<and>
   int_pulse_end (z80_adjust_cycles adjust_ctx_past 500) = CYCLE_NEVER \<and>
   int_pulse_start adjust_ctx_never = CYCLE_NEVER \<and>
   unat (current_cycle (z80_adjust_cycles adjust_ctx_never 500)) = 0 \<and>
   int_pulse_start (z80_adjust_cycles adjust_ctx_never 500) = CYCLE_NEVER \<and>
   int_pulse_end (z80_adjust_cycles adjust_ctx_never 500) = CYCLE_NEVER"
  using z80_adjust_cycles_rebases [of adjust_ctx_ahead 500]
    z80_adjust_cycles_rebases [of adjust_ctx_past 500]
    z80_adjust_cycles_rebases [of adjust_ctx_never 500]
  by (simp add: adjust_ctx_ahead_def adjust_ctx_past_def adjust_ctx_never_def z80_calloc_def
      CYCLE_NEVER_def)

text \<open>
  Claim C5 as the spec words it asks that \<open>nmi_start\<close> be lowered by the deduction
  too. With \<open>nmi_start = 600\<close> and a deduction of 500 the latch still reads 600
  afterwards, not 100.
\<close>

theorem z80_adjust_cycles_keeps_nmi_start:
  "nmi_start adjust_ctx_ahead = 600 \<and>
   nmi_start (z80_adjust_cycles adjust_ctx_ahead 500) \<noteq> nmi_start adjust_ctx_ahead - 500"
  by (simp add: z80_adjust_cycles_def adjust_ctx_ahead_def z80_calloc_def CYCLE_NEVER_def)

section \<open>Facts about the Z80 model\<close>

text \<open>Modelled from the spec: an access the map does not resolve reads 0 and drops the
  write (section 7, "Unmapped access"); no pulse callback is installed. This backend
  serves the concrete runs below.\<close>

definition backend_unmapped :: z80_backend where
  "backend_unmapped = \<lparr>read_byte = (\<lambda>addr z. (0, z)), write_byte = (\<lambda>addr v z. z),
     int_pulse_fun = (\<lambda>z. z)\<rparr>"

lemma hi_half_mask: "(0xFFFF0000 :: 32 word) = push_bit 16 (mask 16)"
  by (simp add: mask_eq_exp_minus_1)

lemma low_byte_mask: "(0xFFFFFF00 :: 32 word) = NOT (mask 8)"
  by (simp add: mask_eq_exp_minus_1)

lemma high_byte_mask: "(0xFFFF00FF :: 32 word) = NOT (push_bit 8 (mask 8))"
  by (simp add: mask_eq_exp_minus_1)

lemma w_l_set_w_l [simp]: "w_l (set_w_l p v) = v"
  unfolding w_l_def set_w_l_def hi_half_mask
  by (rule bit_word_eqI) (auto simp: bit_simps)

lemma ucast_set_w_l [simp]: "(ucast (set_w_l p v) :: 16 word) = v"
  using w_l_set_w_l [of p v] by (simp add: w_l_def)

lemma b_l_set_b_l [simp]: "b_l (set_b_l p v) = v"
  unfolding b_l_def set_b_l_def low_byte_mask
  by (rule bit_word_eqI) (auto simp: bit_simps)

lemma b_h_set_b_h [simp]: "b_h (set_b_h p v) = v"
  unfolding b_h_def set_b_h_def high_byte_mask
  by (rule bit_word_eqI) (auto simp: bit_simps)

lemma b_l_set_b_h [simp]: "b_l (set_b_h p v) = b_l p"
  unfolding b_l_def set_b_h_def high_byte_mask
  by (rule bit_word_eqI) (auto simp: bit_simps)

lemma b_h_set_b_l [simp]: "b_h (set_b_l p v) = b_h p"
  unfolding b_h_def set_b_l_def low_byte_mask
  by (rule bit_word_eqI) (auto simp: bit_simps dest: bit_imp_le_length)

lemma z80_run_frozen:
  "busack z \<noteq> 0 \<or> reset z \<noteq> 0 \<Longrightarrow> z80_run H ops z t = Some (z\<lparr>current_cycle := t\<rparr>)"
  by (simp add: z80_run_def)


subsection \<open>Releasing the reset line\<close>

definition halted_in_reset :: z80_device where
  "halted_in_reset = z80_calloc\<lparr>m_pc := 0x1233, m_halt := 1, reset := 1\<rparr>"

text \<open>
  Claim C4, as the code has it. \<open>z80_clear_reset\<close> on a context whose reset line is
  asserted first lets \<open>z80_run\<close> move \<open>current_cycle\<close> to the given cycle (the core is
  frozen while in reset) and then leaves \<open>PC\<close>, \<open>I\<close>, \<open>R\<close>, \<open>R2\<close>, \<open>IFF1\<close>,
  \<open>IFF2\<close>, the EI and LD A,I shadows, the reset line and \<open>WZ\<close> all zero.
\<close>

theorem z80_clear_reset_state:
  assumes "reset z \<noteq> 0"
  shows "\<exists>z'. z80_clear_reset H ops z cycle = Some z' \<and> w_l (m_pc z') = 0 \<and> m_i z' = 0 \<and>
     m_r z' = 0 \<and> m_r2 z' = 0 \<and> m_iff1 z' = 0 \<and> m_iff2 z' = 0 \<and> m_after_ei z' = 0 \<and>
     m_after_ldair z' = 0 \<and> reset z' = 0 \<and> w_l (m_wz z') = 0 \<and> current_cycle z' = cycle"
  using assms by (simp add: z80_clear_reset_def z80_run_frozen Let_def)

theorem z80_clear_reset_state_witness:
  "reset halted_in_reset \<noteq> 0 \<and>
   (\<exists>z'. z80_clear_reset backend_unmapped (op_switch_fragment backend_unmapped)
            halted_in_reset 100 = Some z' \<and> w_l (m_pc z') = 0 \<and> m_i z' = 0 \<and>
     m_r z' = 0 \<and> m_r2 z' = 0 \<and> m_iff1 z' = 0 \<and> m_iff2 z' = 0 \<and> m_after_ei z' = 0 \<and>
     m_after_ldair z' = 0 \<and> reset z' = 0 \<and> w_l (m_wz z') = 0 \<and> current_cycle z' = 100)"
proof -
  have r: "reset halted_in_reset \<noteq> 0"
    by (simp add: halted_in_reset_def)
  show ?thesis
    using r z80_clear_reset_state [OF r, of backend_unmapped
        "op_switch_fragment backend_unmapped" 100]
    by simp
qed

text \<open>
  Claim C4 as the spec words it also has the halt flag cleared. \<open>z80_clear_reset\<close>
  does not write \<open>m_halt\<close>: a context halted by HALT and then put into reset still has
  \<open>m_halt = 1\<close> when the reset line is released.
\<close>

theorem z80_clear_reset_keeps_halt:
  "map_option m_halt (z80_clear_reset backend_unmapped (op_switch_fragment backend_unmapped)
     halted_in_reset 100) = Some 1"
  by (simp add: z80_clear_reset_def z80_run_frozen halted_in_reset_def z80_calloc_def Let_def)

subsection \<open>Snapshots\<close>

definition snapshot_source :: z80_device where
  "snapshot_source = z80_calloc\<lparr>m_pc := 0x1234, reset := 1\<rparr>"

definition snapshot_target :: z80_device where
  "snapshot_target = z80_calloc\<lparr>reset := 1\<rparr>"

text \<open>
  Claim C6, as the code has it. Both snapshot functions have empty bodies:
  \<open>z80_serialize\<close> leaves the buffer as it was and \<open>z80_deserialize\<close> leaves the
  context it is given as it was, whatever the buffer holds. The round trip therefore
  reproduces a context's runs exactly when it is read back into that same context.
\<close>

theorem z80_snapshot_round_trip:
  "z80_serialize c buf = buf \<and>
   z80_deserialize (z80_serialize c buf) c' = c' \<and>
   z80_run H ops (z80_deserialize (z80_serialize c buf) c) t = z80_run H ops c t"
  by (simp add: z80_serialize_def z80_deserialize_def)

theorem z80_snapshot_round_trip_witness:
  "z80_serialize snapshot_source ([] :: 8 word list) = [] \<and>
   z80_deserialize (z80_serialize snapshot_source ([] :: 8 word list)) snapshot_target
     = snapshot_target \<and>
   z80_run backend_unmapped (op_switch_fragment backend_unmapped)
     (z80_deserialize (z80_serialize snapshot_source ([] :: 8 word list)) snapshot_source) 100
     = Some (snapshot_source\<lparr>current_cycle := 100\<rparr>)"
proof -
  have r: "reset snapshot_source \<noteq> 0"
    by (simp add: snapshot_source_def)
  have f: "z80_run backend_unmapped (op_switch_fragment backend_unmapped) snapshot_source 100
      = Some (snapshot_source\<lparr>current_cycle := 100\<rparr>)"
    by (rule z80_run_frozen) (simp add: r)
  show ?thesis
    by (rule z80_snapshot_round_trip [of snapshot_source "[] :: 8 word list" snapshot_target
          backend_unmapped "op_switch_fragment backend_unmapped" 100, unfolded f])
qed

text \<open>
  Claim C6 as the spec words it fails when the snapshot is read back into another
  context: the source has \<open>PC = 0x1234\<close>, the target \<open>PC = 0\<close>, both are held in
  reset, and after the round trip and a run to cycle 100 the target still reports
  \<open>PC = 0\<close> where the source reports \<open>PC = 0x1234\<close>.
\<close>

theorem z80_snapshot_loses_state:
  "map_option (\<lambda>z. (w_l (m_pc z), current_cycle z))
     (z80_run backend_unmapped (op_switch_fragment backend_unmapped)
        (z80_deserialize (z80_serialize snapshot_source ([] :: 8 word list)) snapshot_target) 100)
     = Some (0, 100) \<and>
   map_option (\<lambda>z. (w_l (m_pc z), current_cycle z))
     (z80_run backend_unmapped (op_switch_fragment backend_unmapped) snapshot_source 100)
     = Some (0x1234, 100)"
  by (simp add: z80_serialize_def z80_deserialize_def z80_run_frozen snapshot_source_def
      snapshot_target_def z80_calloc_def w_l_def)

subsection \<open>Word accesses at the top of the address space\<close>

lemma next_addr_top: "next_addr 0xFFFF = 0"
  by (simp add: next_addr_def)

lemma get_set_pair [simp]: "get_pair r (set_pair r v z) = v"
  by (cases r) simp_all

lemma set_set_pair [simp]: "set_pair r v (set_pair r w z) = set_pair r v z"
  by (cases r) simp_all

lemma get_pair_host_mem [simp]: "get_pair r (z\<lparr>host_mem := m\<rparr>) = get_pair r z"
  by (cases r) simp_all

lemma set_pair_tables [simp]:
  "read_pointers (set_pair r v z) = read_pointers z"
  "write_pointers (set_pair r v z) = write_pointers z"
  "host_mem (set_pair r v z) = host_mem z"
  by (cases r; simp)+

lemma wm16_top_fast:
  assumes "write_pointers z 7 \<noteq> 0" "write_pointers z 0 \<noteq> 0"
  shows "wm16 H z 0xFFFF r = z\<lparr>host_mem := (host_mem z)
          (write_pointers z 7 + 0x1FFF := b_l (get_pair r z),
           write_pointers z 0 := b_h (get_pair r z))\<rparr>"
  using assms by (simp add: wm16_def next_addr_top wm_def Let_def)

lemma rm16_top_fast:
  assumes "read_pointers z 7 \<noteq> 0" "read_pointers z 0 \<noteq> 0"
  shows "rm16 H z 0xFFFF r = set_pair r (set_b_h (set_b_l (get_pair r z)
            (host_mem z (read_pointers z 7 + 0x1FFF))) (host_mem z (read_pointers z 0))) z"
  using assms by (simp add: rm16_def next_addr_top rm_def Let_def)

lemma wm16_top_slow:
  assumes "write_pointers z 7 = 0"
    and "write_pointers (write_byte H 0xFFFF (b_l (get_pair r z)) z) 0 = 0"
  shows "wm16 H z 0xFFFF r =
    write_byte H 0 (b_h (get_pair r (write_byte H 0xFFFF (b_l (get_pair r z)) z)))
      (write_byte H 0xFFFF (b_l (get_pair r z)) z)"
  using assms by (simp add: wm16_def next_addr_top wm_def Let_def)

text \<open>A context whose eight pages are backed by one flat 64 KiB buffer at host address
  \<open>0x10000\<close>, with \<open>HL = 0xBEEF\<close>.\<close>

definition flat_ram :: z80_device where
  "flat_ram = z80_calloc\<lparr>m_hl := 0xBEEF,
     read_pointers := (\<lambda>i. 0x10000 + i * 0x2000),
     write_pointers := (\<lambda>i. 0x10000 + i * 0x2000)\<rparr>"

text \<open>
  Claim C10. For every context, \<open>rm16\<close> and \<open>wm16\<close> at address \<open>0xFFFF\<close> access the
  low byte at \<open>0xFFFF\<close> and the high byte at \<open>0x0000\<close>: the second access of each is
  \<open>rm\<close> or \<open>wm\<close> at address 0. Where both pages have a fast-path buffer the read takes
  the bytes at offset \<open>0x1FFF\<close> of page 7 and offset 0 of page 0 and changes nothing but
  the register pair, and the write stores into exactly those two cells of the host
  memory and changes nothing else; where the write goes through the map, the two
  \<open>write_byte\<close> calls carry the addresses \<open>0xFFFF\<close> and \<open>0\<close>.
\<close>

theorem z80_word_access_wraps:
  "rm16 H z 0xFFFF r =
     (let (lo, z1) = rm H z 0xFFFF;
          z2 = set_pair r (set_b_l (get_pair r z1) lo) z1;
          (hi, z3) = rm H z2 0
      in set_pair r (set_b_h (get_pair r z3) hi) z3) \<and>
   wm16 H z 0xFFFF r =
     (let z1 = wm H z 0xFFFF (b_l (get_pair r z)) in wm H z1 0 (b_h (get_pair r z1))) \<and>
   (read_pointers z 7 \<noteq> 0 \<and> read_pointers z 0 \<noteq> 0 \<longrightarrow>
      rm16 H z 0xFFFF r = set_pair r (set_b_h (set_b_l (get_pair r z)
            (host_mem z (read_pointers z 7 + 0x1FFF))) (host_mem z (read_pointers z 0))) z) \<and>
   (write_pointers z 7 \<noteq> 0 \<and> write_pointers z 0 \<noteq> 0 \<longrightarrow>
      wm16 H z 0xFFFF r = z\<lparr>host_mem := (host_mem z)
          (write_pointers z 7 + 0x1FFF := b_l (get_pair r z),
           write_pointers z 0 := b_h (get_pair r z))\<rparr>) \<and>
   (write_pointers z 7 = 0 \<and>
    write_pointers (write_byte H 0xFFFF (b_l (get_pair r z)) z) 0 = 0 \<longrightarrow>
      wm16 H z 0xFFFF r =
        write_byte H 0 (b_h (get_pair r (write_byte H 0xFFFF (b_l (get_pair r z)) z)))
          (write_byte H 0xFFFF (b_l (get_pair r z)) z))"
  using rm16_top_fast [of z H r] wm16_top_fast [of z H r] wm16_top_slow [of z H r]
  by (simp add: rm16_def wm16_def next_addr_top)

theorem z80_word_access_wraps_witness:
  "read_pointers flat_ram 7 \<noteq> 0 \<and> read_pointers flat_ram 0 \<noteq> 0 \<and>
   write_pointers flat_ram 7 \<noteq> 0 \<and> write_pointers flat_ram 0 \<noteq> 0 \<and>
   host_mem (wm16 backend_unmapped flat_ram 0xFFFF Reg_hl) 0x1FFFF = 0xEF \<and>
   host_mem (wm16 backend_unmapped flat_ram 0xFFFF Reg_hl) 0x10000 = 0xBE \<and>
   host_mem (wm16 backend_unmapped flat_ram 0xFFFF Reg_hl) 0x20000 = 0 \<and>
   m_bc (rm16 backend_unmapped (wm16 backend_unmapped flat_ram 0xFFFF Reg_hl) 0xFFFF Reg_bc)
     = 0xBEEF \<and>
   write_pointers z80_calloc 7 = 0 \<and>
   wm16 backend_unmapped z80_calloc 0xFFFF Reg_hl = z80_calloc"
proof -
  let ?w = "wm16 backend_unmapped flat_ram 0xFFFF Reg_hl"
  have p: "read_pointers flat_ram 7 \<noteq> 0 \<and> read_pointers flat_ram 0 \<noteq> 0 \<and>
      write_pointers flat_ram 7 \<noteq> 0 \<and> write_pointers flat_ram 0 \<noteq> 0"
    by (simp add: flat_ram_def)
  note fast_write = conjunct2 [THEN conjunct2, THEN conjunct2, THEN conjunct1, THEN mp]
  note fast_read = conjunct2 [THEN conjunct2, THEN conjunct1, THEN mp]
  note slow_write = conjunct2 [THEN conjunct2, THEN conjunct2, THEN conjunct2, THEN mp]
  have w: "?w = flat_ram\<lparr>host_mem := (host_mem flat_ram)
          (write_pointers flat_ram 7 + 0x1FFF := b_l (get_pair Reg_hl flat_ram),
           write_pointers flat_ram 0 := b_h (get_pair Reg_hl flat_ram))\<rparr>"
    using p by (intro fast_write [OF z80_word_access_wraps]) simp
  have rp: "read_pointers ?w 7 \<noteq> 0 \<and> read_pointers ?w 0 \<noteq> 0"
    unfolding w by (simp add: flat_ram_def)
  have r: "rm16 backend_unmapped ?w 0xFFFF Reg_bc = set_pair Reg_bc (set_b_h (set_b_l (get_pair Reg_bc ?w)
            (host_mem ?w (read_pointers ?w 7 + 0x1FFF))) (host_mem ?w (read_pointers ?w 0))) ?w"
    using rp by (intro fast_read [OF z80_word_access_wraps]) simp
  have s: "wm16 backend_unmapped z80_calloc 0xFFFF Reg_hl = z80_calloc"
    by (subst slow_write [OF z80_word_access_wraps])
      (simp_all add: z80_calloc_def backend_unmapped_def)
  have m: "m_bc (rm16 backend_unmapped ?w 0xFFFF Reg_bc) = 0xBEEF"
    unfolding r unfolding w
    by (simp add: flat_ram_def z80_calloc_def b_l_def b_h_def set_b_l_def set_b_h_def)
  show ?thesis
    using p m s unfolding w
    by (simp add: flat_ram_def z80_calloc_def b_l_def b_h_def)
qed


subsection \<open>The run loop\<close>

lemma z80_run_body_busreq:
  assumes "z80_run_body H ops t st = Some (z1, ii)" "busreq z1 \<noteq> 0"
  shows "busack z1 = 1 \<and> m_icount z1 = 0"
  using assms
  by (auto simp: z80_run_body_def Let_def split: prod.splits option.splits if_splits)

lemma z80_run_loop_last:
  assumes "z80_run_body H ops t st = Some (z1, ii)" "\<not> 0 < sint (m_icount z1)"
  shows "z80_run_loop H ops t st = Some z1"
  using assms by (subst z80_run_loop.simps) simp


lemma z80_run_busreq_one_pass:
  assumes "busack z = 0" "reset z = 0" "current_cycle z < t"
    "z80_run_setup H z t = Some st" "z80_run_body H ops t st = Some (z1, ii)" "busreq z1 \<noteq> 0"
  shows "z80_run H ops z t = Some (z1\<lparr>current_cycle := t\<rparr>) \<and> busack z1 = 1 \<and> m_icount z1 = 0"
proof -
  have b: "busack z1 = 1 \<and> m_icount z1 = 0"
    using z80_run_body_busreq [OF assms(5,6)] .
  then have l: "z80_run_loop H ops t st = Some z1"
    using z80_run_loop_last [OF assms(5)] by simp
  have "\<not> t \<le> current_cycle z" using assms(3) by simp
  then show ?thesis using assms(1,2,4) l b
    by (simp add: z80_run_def)
qed







section \<open>The Z80 add/adc flag table\<close>

text \<open>The flag bits of the \<open>F\<close> register as z80.c defines them.\<close>

definition CF :: int where "CF = 0x01"
definition NF :: int where "NF = 0x02"
definition PF :: int where "PF = 0x04"
definition VF :: int where "VF = PF"
definition XF :: int where "XF = 0x08"
definition HF :: int where "HF = 0x10"
definition YF :: int where "YF = 0x20"
definition ZF :: int where "ZF = 0x40"
definition SF :: int where "SF = 0x80"

text \<open>
  The table that \<open>init_z80_context\<close> fills on its first call. The loop nest runs
  \<open>oldval\<close> and \<open>newval\<close> from 0 to 255 and steps the pointers \<open>padd\<close> (from entry 0)
  and \<open>padc\<close> (from entry \<open>256*256\<close>) once per pass, so entry \<open>oldval*256 + newval\<close> of
  each half holds the byte computed for that pair. \<open>val\<close>, \<open>oldval\<close> and \<open>newval\<close>
  are C \<open>int\<close>s; each stored byte is cut to \<open>uint8_t\<close>.
\<close>

definition padd_entry :: "int \<Rightarrow> int \<Rightarrow> 8 word" where
  "padd_entry oldval newval =
    (let val = newval - oldval;
         f0 = (word_of_int (if newval \<noteq> 0 then (if newval AND 0x80 \<noteq> 0 then SF else 0) else ZF) :: 8 word);
         f1 = f0 OR word_of_int (newval AND (YF OR XF));
         f2 = (if (newval AND 0x0f) < (oldval AND 0x0f) then f1 OR word_of_int HF else f1);
         f3 = (if newval < oldval then f2 OR word_of_int CF else f2)
     in if (val XOR oldval XOR 0x80) AND (val XOR newval) AND 0x80 \<noteq> 0
        then f3 OR word_of_int VF else f3)"

definition padc_entry :: "int \<Rightarrow> int \<Rightarrow> 8 word" where
  "padc_entry oldval newval =
    (let val = newval - oldval - 1;
         f0 = (word_of_int (if newval \<noteq> 0 then (if newval AND 0x80 \<noteq> 0 then SF else 0) else ZF) :: 8 word);
         f1 = f0 OR word_of_int (newval AND (YF OR XF));
         f2 = (if (newval AND 0x0f) \<le> (oldval AND 0x0f) then f1 OR word_of_int HF else f1);
         f3 = (if newval \<le> oldval then f2 OR word_of_int CF else f2)
     in if (val XOR oldval XOR 0x80) AND (val XOR newval) AND 0x80 \<noteq> 0
        then f3 OR word_of_int VF else f3)"

definition SZHVC_add :: "8 word list" where
  "SZHVC_add =
     concat (map (\<lambda>oldval. map (\<lambda>newval. padd_entry (int oldval) (int newval)) [0..<256]) [0..<256]) @
     concat (map (\<lambda>oldval. map (\<lambda>newval. padc_entry (int oldval) (int newval)) [0..<256]) [0..<256])"

text \<open>
  The index \<open>(c << 16) | (a << 8) | res\<close> that \<open>add_a\<close> and \<open>adc_a\<close> form from
  the carry, the old accumulator and the 8-bit result.
\<close>

definition szhvc_index :: "bool \<Rightarrow> 8 word \<Rightarrow> 8 word \<Rightarrow> nat" where
  "szhvc_index c a res =
     unat (push_bit 16 (of_bool c :: 32 word) OR push_bit 8 (ucast a) OR ucast res)"

lemma nth_concat_rows:
  assumes "\<And>i. i < n \<Longrightarrow> length (f i) = m" "i < n" "j < m"
  shows "concat (map f [0..<n]) ! (i * m + j) = f i ! j"
  using assms
proof (induction n arbitrary: i)
  case 0
  then show ?case by simp
next
  case (Suc n)
  have len: "length (concat (map f [0..<n])) = n * m"
    using Suc.prems(1) by (induction n) (simp_all)
  show ?case
  proof (cases "i < n")
    case True
    have "i * m + j < n * m"
    proof -
      have "Suc i * m \<le> n * m" using True by (intro mult_le_mono1) simp
      then show ?thesis using Suc.prems(3) by simp
    qed
    then show ?thesis using Suc.IH [of i] Suc.prems True
      by (simp add: nth_append len)
  next
    case False
    then have "i = n" using Suc.prems(2) by simp
    then show ?thesis using Suc.prems by (simp add: nth_append len)
  qed
qed

lemma SZHVC_add_nc:
  assumes "old < 256" "new < 256"
  shows "SZHVC_add ! (old * 256 + new) = padd_entry (int old) (int new)"
proof -
  let ?A = "concat (map (\<lambda>oldval. map (\<lambda>newval. padd_entry (int oldval) (int newval)) [0..<256]) [0..<256])"
  have len: "length ?A = 65536"
    by (simp add: length_concat comp_def sum_list_triv)
  have "old * 256 + new < 65536" using assms by simp
  then have "SZHVC_add ! (old * 256 + new) = ?A ! (old * 256 + new)"
    unfolding SZHVC_add_def by (simp add: nth_append len del: upt_Suc map_append)
  also have "\<dots> = map (\<lambda>newval. padd_entry (int old) (int newval)) [0..<256] ! new"
    by (rule nth_concat_rows) (use assms in simp_all)
  finally show ?thesis using assms by simp
qed

lemma SZHVC_add_c:
  assumes "old < 256" "new < 256"
  shows "SZHVC_add ! (65536 + old * 256 + new) = padc_entry (int old) (int new)"
proof -
  let ?A = "concat (map (\<lambda>oldval. map (\<lambda>newval. padd_entry (int oldval) (int newval)) [0..<256]) [0..<256])"
  let ?B = "concat (map (\<lambda>oldval. map (\<lambda>newval. padc_entry (int oldval) (int newval)) [0..<256]) [0..<256])"
  have len: "length ?A = 65536"
    by (simp add: length_concat comp_def sum_list_triv)
  have "SZHVC_add ! (65536 + old * 256 + new) = ?B ! (old * 256 + new)"
    unfolding SZHVC_add_def by (simp add: nth_append len add.assoc del: upt_Suc map_append)
  also have "\<dots> = map (\<lambda>newval. padc_entry (int old) (int newval)) [0..<256] ! new"
    by (rule nth_concat_rows) (use assms in simp_all)
  finally show ?thesis using assms by simp
qed

lemma and_0x80_iff: "((x::int) AND 0x80 \<noteq> 0) \<longleftrightarrow> bit x 7"
proof -
  have "(0x80::int) = 2 ^ 7" by simp
  then show ?thesis by (metis and_exp_eq_0_iff_not_bit)
qed

lemma and_0x0f: "(x::int) AND 0x0f = x mod 16"
proof -
  have m: "(0x0f::int) = mask 4" by (simp add: mask_eq_exp_minus_1)
  have "x AND mask 4 = x mod 2 ^ 4"
    by (simp only: flip: take_bit_eq_mask take_bit_eq_mod)
  then show ?thesis unfolding m by simp
qed

lemma bit7_byte: 
  assumes "0 \<le> x" "x < 256" shows "bit (x::int) 7 \<longleftrightarrow> 128 \<le> x"
proof (cases "128 \<le> x")
  case True
  then have "x div 128 = 1" using assms by simp
  then show ?thesis using True by (simp add: bit_iff_odd)
next
  case False
  then have "x div 128 = 0" using assms by simp
  then show ?thesis using False by (simp add: bit_iff_odd)
qed

lemma bit7_mod: "bit (x::int) 7 \<longleftrightarrow> bit (x mod 256) 7"
proof -
  have "bit (take_bit 8 x) 7 \<longleftrightarrow> bit x 7" by (simp add: bit_take_bit_iff)
  then show ?thesis by (simp add: take_bit_eq_mod)
qed

lemma overflow_test:
  "((v XOR old XOR 0x80) AND (v XOR new) AND (0x80::int) \<noteq> 0) \<longleftrightarrow>
     (bit v 7 \<longleftrightarrow> bit old 7) \<and> (bit v 7 \<noteq> bit new 7)"
proof -
  have "(v XOR old XOR 0x80) AND (v XOR new) AND 0x80 = ((v XOR old XOR 0x80) AND (v XOR new)) AND 0x80"
    by (simp add: and.assoc)
  then show ?thesis
    by (auto simp: and_0x80_iff bit_and_iff bit_xor_iff)
qed

lemma padd_entry_bits:
  assumes "0 \<le> old" "old < 256" "0 \<le> new" "new < 256"
  shows "bit (padd_entry old new) 7 \<longleftrightarrow> 128 \<le> new"
    and "bit (padd_entry old new) 6 \<longleftrightarrow> new = 0"
    and "bit (padd_entry old new) 5 \<longleftrightarrow> bit new 5"
    and "bit (padd_entry old new) 4 \<longleftrightarrow> new mod 16 < old mod 16"
    and "bit (padd_entry old new) 3 \<longleftrightarrow> bit new 3"
    and "bit (padd_entry old new) 2 \<longleftrightarrow>
           (bit (new - old) 7 \<longleftrightarrow> 128 \<le> old) \<and> (bit (new - old) 7 \<noteq> (128 \<le> new))"
    and "\<not> bit (padd_entry old new) 1"
    and "bit (padd_entry old new) 0 \<longleftrightarrow> new < old"
  using bit7_byte [OF assms(1,2)] bit7_byte [OF assms(3,4)]
  by (auto simp add: padd_entry_def Let_def CF_def VF_def PF_def XF_def YF_def HF_def ZF_def
      SF_def bit_or_iff bit_word_of_int_iff bit_and_iff and_0x80_iff and_0x0f overflow_test)

lemma padc_entry_bits:
  assumes "0 \<le> old" "old < 256" "0 \<le> new" "new < 256"
  shows "bit (padc_entry old new) 7 \<longleftrightarrow> 128 \<le> new"
    and "bit (padc_entry old new) 6 \<longleftrightarrow> new = 0"
    and "bit (padc_entry old new) 5 \<longleftrightarrow> bit new 5"
    and "bit (padc_entry old new) 4 \<longleftrightarrow> new mod 16 \<le> old mod 16"
    and "bit (padc_entry old new) 3 \<longleftrightarrow> bit new 3"
    and "bit (padc_entry old new) 2 \<longleftrightarrow>
           (bit (new - old - 1) 7 \<longleftrightarrow> 128 \<le> old) \<and> (bit (new - old - 1) 7 \<noteq> (128 \<le> new))"
    and "\<not> bit (padc_entry old new) 1"
    and "bit (padc_entry old new) 0 \<longleftrightarrow> new \<le> old"
  using bit7_byte [OF assms(1,2)] bit7_byte [OF assms(3,4)]
  by (auto simp add: padc_entry_def Let_def CF_def VF_def PF_def XF_def YF_def HF_def ZF_def
      SF_def bit_or_iff bit_word_of_int_iff bit_and_iff and_0x80_iff and_0x0f overflow_test)

lemma szhvc_index_sum:
  "szhvc_index c a res = of_bool c * 65536 + unat a * 256 + unat res"
proof -
  let ?X = "push_bit 16 (of_bool c :: 32 word)"
  let ?Y = "push_bit 8 (ucast a) :: 32 word"
  let ?Z = "ucast res :: 32 word"
  have yz: "?Y AND ?Z = 0"
    by (rule bit_word_eqI) (auto simp: bit_simps dest: bit_imp_le_length)
  have xyz: "?X AND (?Y OR ?Z) = 0"
    by (rule bit_word_eqI) (auto simp: bit_simps dest: bit_imp_le_length)
  have s1: "?Y OR ?Z = ?Y + ?Z"
    using disjunctive_add_eq_or [OF yz] by simp
  have s2: "?X OR (?Y OR ?Z) = ?X + (?Y OR ?Z)"
    using disjunctive_add_eq_or [OF xyz] by simp
  have ux: "unat ?X = of_bool c * 65536"
    by (cases c) simp_all
  have ua: "unat (ucast a :: 32 word) = unat a" by (simp add: unsigned_ucast_eq take_bit_nat_eq_self unsigned_less [THEN less_trans])
  have la: "unat a < 256" using unsigned_less [of a, where ?'a = nat] by simp
  have lr: "unat res < 256" using unsigned_less [of res, where ?'a = nat] by simp
  have uy: "unat ?Y = unat a * 256"
    using la ua by (simp add: push_bit_eq_mult unat_word_ariths)
  have uz: "unat ?Z = unat res" by (simp add: unsigned_ucast_eq take_bit_nat_eq_self unsigned_less [THEN less_trans])
  have "unat (?Y + ?Z) = unat a * 256 + unat res"
    using la lr uy uz by (simp add: unat_word_ariths)
  then have u: "unat (?X + (?Y + ?Z)) = of_bool c * 65536 + unat a * 256 + unat res"
    using la lr ux by (cases c) (simp_all add: unat_word_ariths)
  have "?X OR ?Y OR ?Z = ?X + (?Y + ?Z)"
    using s1 s2 by (simp only: or.assoc)
  then show ?thesis
    unfolding szhvc_index_def using u by (simp only:)
qed

lemma bit_byte_int: "n < 8 \<Longrightarrow> bit (int (unat (w :: 8 word))) n \<longleftrightarrow> bit w n"
  by (simp add: bit_uint_iff)

lemma sint_byte:
  "sint (a :: 8 word) = (if 128 \<le> unat a then int (unat a) - 256 else int (unat a))"
proof -
  have u: "uint a = int (unat a)" by simp
  have b: "bit (uint a) 7 \<longleftrightarrow> 128 \<le> uint a"
    by (rule bit7_byte) (use uint_lt2p [of a] in simp_all)
  have t: "take_bit 8 (uint a) = uint a"
    by (simp add: take_bit_int_eq_self_iff uint_lt2p [of a, simplified])
  have "sint a = signed_take_bit 7 (uint a)" by (simp add: sint_uint)
  also have "\<dots> = take_bit 8 (uint a) - 256 * of_bool (bit (uint a) 7)"
    by (simp add: signed_take_bit_eq_take_bit_minus)
  finally have "sint a = uint a - 256 * of_bool (128 \<le> uint a)"
    using b t by simp
  moreover have "128 \<le> unat a \<longleftrightarrow> 128 \<le> uint a"
    using u by linarith
  ultimately show ?thesis unfolding u [symmetric] by simp
qed

lemma res_unat: "unat (a + b + of_bool c :: 8 word) = (unat a + unat b + of_bool c) mod 256"
  by (cases c) (simp_all add: unat_word_ariths mod_simps)

lemma val_bit7:
  fixes A B R :: nat
  assumes "R = (A + B + C) mod 256" "B < 256"
  shows "bit (int R - int A - int C) 7 \<longleftrightarrow> 128 \<le> B"
proof -
  have r: "int R = (int A + int B + int C) mod 256"
    unfolding assms(1) by (simp add: zmod_int)
  have "(int R - int A - int C) mod 256 = ((int A + int B + int C) mod 256 - (int A + int C)) mod 256"
    unfolding r by (simp add: algebra_simps)
  also have "\<dots> = (int A + int B + int C - (int A + int C)) mod 256"
    by (rule mod_diff_left_eq)
  also have "\<dots> = int B" using assms(2) by simp
  finally have "bit (int R - int A - int C) 7 \<longleftrightarrow> bit (int B) 7"
    using bit7_mod [of "int R - int A - int C"] by simp
  also have "\<dots> \<longleftrightarrow> 128 \<le> int B"
    by (rule bit7_byte) (use assms(2) in simp_all)
  finally show ?thesis by simp
qed

lemma wrap_cases:
  fixes A B C :: nat
  assumes "A < 256" "B < 256" "C \<le> 1"
  shows "(A + B + C) mod 256 = (if A + B + C < 256 then A + B + C else A + B + C - 256)"
proof (cases "A + B + C < 256")
  case True
  then show ?thesis by simp
next
  case False
  then have "A + B + C = (A + B + C - 256) + 256" "A + B + C - 256 < 256"
    using assms by simp_all
  then have "(A + B + C) mod 256 = A + B + C - 256"
    by (metis mod_add_self2 mod_less)
  then show ?thesis using False by simp
qed

lemma nibble_cases:
  fixes x y C :: nat
  assumes "x < 16" "y < 16" "C \<le> 1"
  shows "(x + y + C) mod 16 = (if x + y + C < 16 then x + y + C else x + y + C - 16)"
proof (cases "x + y + C < 16")
  case True
  then show ?thesis by simp
next
  case False
  then have "x + y + C = (x + y + C - 16) + 16" "x + y + C - 16 < 16"
    using assms by simp_all
  then have "(x + y + C) mod 16 = x + y + C - 16"
    by (metis mod_add_self2 mod_less)
  then show ?thesis using False by simp
qed

lemma res_nibble:
  fixes A B C :: nat
  shows "((A + B + C) mod 256) mod 16 = (A mod 16 + B mod 16 + C) mod 16"
proof -
  have "((A + B + C) mod 256) mod 16 = (A + B + C) mod 16"
    by (simp add: mod_mod_cancel)
  also have "\<dots> = ((A + B) mod 16 + C) mod 16"
    by (rule mod_add_left_eq [symmetric])
  also have "(A + B) mod 16 = (A mod 16 + B mod 16) mod 16"
    by (rule mod_add_eq [symmetric])
  also have "((A mod 16 + B mod 16) mod 16 + C) mod 16 = (A mod 16 + B mod 16 + C) mod 16"
    by (rule mod_add_left_eq)
  finally show ?thesis .
qed

lemma half_carry_xy:
  fixes x y rr C :: nat
  assumes "x < 16" "y < 16" "C \<le> 1"
    "rr = (if x + y + C < 16 then x + y + C else x + y + C - 16)"
  shows "(if C = 0 then rr < x else rr \<le> x) \<longleftrightarrow> 15 < x + y + C"
proof (cases "x + y + C < 16")
  case True
  then show ?thesis using assms by (cases "C = 0") simp_all
next
  case False
  then show ?thesis using assms by (cases "C = 0") simp_all
qed

lemma half_carry_arith:
  fixes A B R :: nat
  assumes "R = (A + B + C) mod 256" "C \<le> 1"
  shows "(if C = 0 then R mod 16 < A mod 16 else R mod 16 \<le> A mod 16) \<longleftrightarrow>
           15 < A mod 16 + B mod 16 + C"
proof -
  have x: "A mod 16 < 16" "B mod 16 < 16" by simp_all
  have "R mod 16 = (if A mod 16 + B mod 16 + C < 16 then A mod 16 + B mod 16 + C
                    else A mod 16 + B mod 16 + C - 16)"
    unfolding assms(1) res_nibble using nibble_cases [OF x assms(2)] .
  then show ?thesis by (rule half_carry_xy [OF x assms(2)])
qed

lemma carry_arith:
  fixes A B R :: nat
  assumes "A < 256" "B < 256" "R = (A + B + C) mod 256" "C \<le> 1"
  shows "(if C = 0 then R < A else R \<le> A) \<longleftrightarrow> 255 < A + B + C"
proof -
  have r: "R = (if A + B + C < 256 then A + B + C else A + B + C - 256)"
    unfolding assms(3) by (rule wrap_cases [OF assms(1,2,4)])
  show ?thesis
  proof (cases "A + B + C < 256")
    case True
    then show ?thesis using r assms by (cases "C = 0") simp_all
  next
    case False
    then show ?thesis using r assms by (cases "C = 0") simp_all
  qed
qed

lemma overflow_arith:
  fixes A B R C :: nat
  assumes "A < 256" "B < 256" "R = (A + B + C) mod 256" "C \<le> 1"
  shows "((128 \<le> B \<longleftrightarrow> 128 \<le> A) \<and> ((128 \<le> B) \<noteq> (128 \<le> R))) \<longleftrightarrow>
    ((if 128 \<le> A then int A - 256 else int A) + (if 128 \<le> B then int B - 256 else int B) + int C < - 128 \<or>
     127 < (if 128 \<le> A then int A - 256 else int A) + (if 128 \<le> B then int B - 256 else int B) + int C)"
proof -
  have r: "R = (if A + B + C < 256 then A + B + C else A + B + C - 256)"
    unfolding assms(3) by (rule wrap_cases [OF assms(1,2,4)])
  show ?thesis
  proof (cases "128 \<le> A")
    case a: True
    show ?thesis
    proof (cases "128 \<le> B")
      case b: True
      then have "\<not> A + B + C < 256" using a by simp
      then have "R = A + B + C - 256" using r by simp
      then show ?thesis using a b assms(1,2,4) by simp linarith
    next
      case b: False
      show ?thesis
      proof (cases "A + B + C < 256")
        case True
        then have "R = A + B + C" using r by simp
        then show ?thesis using a b True assms(1,2,4) by simp
      next
        case False
        then have "R = A + B + C - 256" using r by simp
        then show ?thesis using a b False assms(1,2,4) by simp
      qed
    qed
  next
    case a: False
    show ?thesis
    proof (cases "128 \<le> B")
      case b: True
      show ?thesis
      proof (cases "A + B + C < 256")
        case True
        then have "R = A + B + C" using r by simp
        then show ?thesis using a b True assms(1,2,4) by simp
      next
        case False
        then have "R = A + B + C - 256" using r by simp
        then show ?thesis using a b False assms(1,2,4) by simp
      qed
    next
      case b: False
      then have "A + B + C < 256" using a assms(4) by simp
      then have "R = A + B + C" using r by simp
      then show ?thesis using a b assms(1,2,4) by simp linarith
    qed
  qed
qed

text \<open>
  Claim C8. For all bytes \<open>a\<close>, \<open>b\<close> and every carry \<open>c\<close>, the entry of
  \<open>SZHVC_add\<close> at index \<open>(c << 16) | (a << 8) | res\<close>, where \<open>res\<close> is \<open>a + b + c\<close>
  cut to 8 bits, is the reference flag byte: SF (bit 7) is bit 7 of the result, ZF
  (bit 6) is set exactly when the result is zero, YF and XF (bits 5 and 3) are bits 5
  and 3 of the result, HF (bit 4) is the carry out of bit 3 of \<open>a + b + c\<close>, VF (bit 2)
  is the signed overflow of \<open>a + b + c\<close>, CF (bit 0) is the carry out of bit 7, and NF
  (bit 1) is clear.
\<close>

theorem SZHVC_add_matches_reference:
  fixes a b :: "8 word" and c :: bool
  shows "let res = a + b + of_bool c; f = SZHVC_add ! szhvc_index c a res in
      (bit f 7 \<longleftrightarrow> bit res 7) \<and> (bit f 6 \<longleftrightarrow> res = 0) \<and>
      (bit f 5 \<longleftrightarrow> bit res 5) \<and> (bit f 3 \<longleftrightarrow> bit res 3) \<and>
      (bit f 4 \<longleftrightarrow> 15 < unat a mod 16 + unat b mod 16 + of_bool c) \<and>
      (bit f 2 \<longleftrightarrow> (sint a + sint b + of_bool c < - 128 \<or> 127 < sint a + sint b + of_bool c)) \<and>
      (bit f 0 \<longleftrightarrow> 255 < unat a + unat b + of_bool c) \<and> \<not> bit f 1"
proof -
  define A B C R where "A = unat a" and "B = unat b" and "C = (of_bool c :: nat)"
    and "R = unat (a + b + of_bool c)"
  have A: "A < 256" and B: "B < 256" and R: "R < 256"
    using unsigned_less [of a, where ?'a = nat] unsigned_less [of b, where ?'a = nat]
      unsigned_less [of "a + b + of_bool c", where ?'a = nat]
    by (simp_all add: A_def B_def R_def)
  have C: "C \<le> 1" by (simp add: C_def)
  have Rm: "R = (A + B + C) mod 256"
    unfolding R_def A_def B_def C_def by (rule res_unat)
  have idx: "szhvc_index c a (a + b + of_bool c) = C * 65536 + A * 256 + R"
    unfolding A_def C_def R_def by (rule szhvc_index_sum)
  have rng: "0 \<le> int A" "int A < 256" "0 \<le> int R" "int R < 256"
    using A R by simp_all
  have res7: "bit (a + b + of_bool c) 7 \<longleftrightarrow> 128 \<le> int R"
    unfolding R_def using bit_byte_int [of 7 "a + b + of_bool c"] bit7_byte [OF rng(3,4)]
    by (simp add: R_def)
  have res5: "bit (a + b + of_bool c) 5 \<longleftrightarrow> bit (int R) 5"
    and res3: "bit (a + b + of_bool c) 3 \<longleftrightarrow> bit (int R) 3"
    unfolding R_def by (simp_all add: bit_byte_int [symmetric])
  have z: "w = 0 \<longleftrightarrow> int (unat w) = 0" for w :: "8 word"
    by (simp add: unsigned_eq_0_iff)
  have res0: "a + b + of_bool c = 0 \<longleftrightarrow> int R = 0"
    unfolding R_def by (rule z)
  have sa: "sint a = (if 128 \<le> A then int A - 256 else int A)"
    and sb: "sint b = (if 128 \<le> B then int B - 256 else int B)"
    unfolding A_def B_def by (rule sint_byte)+
  have ov: "((128 \<le> B \<longleftrightarrow> 128 \<le> A) \<and> ((128 \<le> B) \<noteq> (128 \<le> R))) \<longleftrightarrow>
      (sint a + sint b + int C < - 128 \<or> 127 < sint a + sint b + int C)"
    unfolding sa sb by (rule overflow_arith [OF A B Rm C])
  have vb: "bit (int R - int A - int C) 7 \<longleftrightarrow> 128 \<le> B"
    by (rule val_bit7 [OF Rm B])
  have hc: "(if C = 0 then R mod 16 < A mod 16 else R mod 16 \<le> A mod 16) \<longleftrightarrow>
           15 < A mod 16 + B mod 16 + C"
    by (rule half_carry_arith [OF Rm C])
  have cy: "(if C = 0 then R < A else R \<le> A) \<longleftrightarrow> 255 < A + B + C"
    by (rule carry_arith [OF A B Rm C])
  have m16: "int R mod 16 = int (R mod 16)" "int A mod 16 = int (A mod 16)"
    by (simp_all add: zmod_int)
  show ?thesis
  proof (cases c)
    case False
    then have C0: "C = 0" by (simp add: C_def)
    have e: "SZHVC_add ! szhvc_index c a (a + b + of_bool c) = padd_entry (int A) (int R)"
      unfolding idx C0 using SZHVC_add_nc [OF A R] by simp
    show ?thesis
      unfolding Let_def e padd_entry_bits [OF rng] res7 res5 res3 res0 m16
      using ov vb hc cy padd_entry_bits(7) [OF rng]
      by (simp add: C0 A_def [symmetric] B_def [symmetric] False)
  next
    case True
    then have C1: "C = 1" by (simp add: C_def)
    have e: "SZHVC_add ! szhvc_index c a (a + b + of_bool c) = padc_entry (int A) (int R)"
      unfolding idx C1 using SZHVC_add_c [OF A R] by simp
    show ?thesis
      unfolding Let_def e padc_entry_bits [OF rng] res7 res5 res3 res0 m16
      using ov vb hc cy padc_entry_bits(7) [OF rng]
      by (simp add: C1 A_def [symmetric] B_def [symmetric] True)
  qed
qed


subsection \<open>Concrete runs\<close>

text \<open>A context ready to run: clock divider 15, the cycle tables of z80.c, no interrupt
  pulse scheduled, and all eight pages backed by one flat buffer at host address
  \<open>0x10000\<close> that holds zeros (NOP everywhere); \<open>A = 0x5A\<close> and \<open>HL = 0x0010\<close>.\<close>

definition running_z80 :: z80_device where
  "running_z80 = z80_calloc\<lparr>clock_divider := 15, m_af := 0x5A40, m_hl := 0x0010,
     int_pulse_start := CYCLE_NEVER, int_pulse_end := CYCLE_NEVER,
     m_cc_op := cc_op, m_cc_cb := cc_cb, m_cc_ed := cc_ed, m_cc_xy := cc_xy,
     m_cc_xycb := cc_xycb, m_cc_ex := cc_ex,
     read_pointers := (\<lambda>i. 0x10000 + i * 0x2000),
     write_pointers := (\<lambda>i. 0x10000 + i * 0x2000)\<rparr>"

text \<open>The same context with \<open>LD (HL),A\<close> (opcode \<open>0x77\<close>) at address 0, after the 68k
  has asserted the bus request.\<close>

definition ld_hl_a_program :: z80_device where
  "ld_hl_a_program = running_z80\<lparr>host_mem := (\<lambda>a. if a = 0x10000 then 0x77 else 0)\<rparr>"

definition busreq_pending :: z80_device where
  "busreq_pending = z80_assert_busreq ld_hl_a_program 0"

definition busreq_after_pass :: z80_device where
  "busreq_after_pass = ld_hl_a_program\<lparr>busreq := 1, m_pc := 1, m_r := 1,
     host_mem := (host_mem ld_hl_a_program)(0x10010 := 0x5A), busack := 1, m_icount := 0\<rparr>"


lemma cc_op_77: "cc_at cc_op 0x77 = Some 7"
  by (simp add: cc_at_def cc_op_def)

lemma busreq_pending_setup:
  "z80_run_setup backend_unmapped busreq_pending 150 =
     Some (busreq_pending\<lparr>m_icount := 10\<rparr>, INT_MIN)"
  by (simp add: z80_run_setup_def busreq_pending_def z80_assert_busreq_def ld_hl_a_program_def
      running_z80_def z80_calloc_def pulse_icount_def CYCLE_NEVER_def Let_def)

lemma busreq_pending_body:
  "z80_run_body backend_unmapped (op_switch_fragment backend_unmapped) 150
     (busreq_pending\<lparr>m_icount := 10\<rparr>, INT_MIN) = Some (busreq_after_pass, INT_MIN)"
  by (simp add: z80_run_body_def EXEC_op_def rop_def rm_def wm_def Let_def cc_op_77
      op_switch_fragment_def INT_MIN_def busreq_pending_def busreq_after_pass_def
      z80_assert_busreq_def ld_hl_a_program_def
      running_z80_def z80_calloc_def w_l_def b_h_def set_w_l_def)

subsection \<open>The bus request\<close>

text \<open>
  Claim C9, as the code has it. \<open>z80_assert_busreq\<close> only sets \<open>busreq\<close>. A
  \<open>z80_run\<close> that then finds the deadline ahead makes one pass through the loop
  body (an interrupt entry if one is due, then one opcode, either of which may write
  memory), and if \<open>busreq\<close> is still set after it, sets \<open>busack\<close> to 1, clears
  \<open>m_icount\<close> and returns with \<open>current_cycle\<close> equal to the deadline. From then
  on, while \<open>busack\<close> is set, every \<open>z80_run\<close> changes nothing but \<open>current_cycle\<close>,
  which becomes the deadline: no opcode runs and no memory is written.
  \<open>z80_clear_busreq\<close> clears \<open>busreq\<close> and \<open>busack\<close>.
\<close>

theorem z80_busreq_handshake:
  "z80_assert_busreq z c = z\<lparr>busreq := 1\<rparr> \<and>
   z80_clear_busreq z c = z\<lparr>busreq := 0, busack := 0\<rparr> \<and>
   (busack z \<noteq> 0 \<longrightarrow> z80_run H ops z t = Some (z\<lparr>current_cycle := t\<rparr>)) \<and>
   (busack z = 0 \<and> reset z = 0 \<and> current_cycle z < t \<and>
    z80_run_setup H z t = Some st \<and> z80_run_body H ops t st = Some (z1, ii) \<and>
    busreq z1 \<noteq> 0 \<longrightarrow>
      z80_run H ops z t = Some (z1\<lparr>current_cycle := t\<rparr>) \<and> busack z1 = 1 \<and>
      z80_run H ops (z1\<lparr>current_cycle := t\<rparr>) t' = Some (z1\<lparr>current_cycle := t'\<rparr>))"
proof -
  have a: "busack z \<noteq> 0 \<longrightarrow> z80_run H ops z t = Some (z\<lparr>current_cycle := t\<rparr>)"
    by (simp add: z80_run_frozen)
  have b: "busack z = 0 \<and> reset z = 0 \<and> current_cycle z < t \<and>
    z80_run_setup H z t = Some st \<and> z80_run_body H ops t st = Some (z1, ii) \<and>
    busreq z1 \<noteq> 0 \<longrightarrow>
      z80_run H ops z t = Some (z1\<lparr>current_cycle := t\<rparr>) \<and> busack z1 = 1 \<and>
      z80_run H ops (z1\<lparr>current_cycle := t\<rparr>) t' = Some (z1\<lparr>current_cycle := t'\<rparr>)"
  proof
    assume h: "busack z = 0 \<and> reset z = 0 \<and> current_cycle z < t \<and>
      z80_run_setup H z t = Some st \<and> z80_run_body H ops t st = Some (z1, ii) \<and>
      busreq z1 \<noteq> 0"
    then have p: "z80_run H ops z t = Some (z1\<lparr>current_cycle := t\<rparr>) \<and> busack z1 = 1 \<and>
        m_icount z1 = 0"
      by (intro z80_run_busreq_one_pass [of z t H st ops z1 ii]) simp_all
    then have "busack (z1\<lparr>current_cycle := t\<rparr>) \<noteq> 0" by simp
    then have "z80_run H ops (z1\<lparr>current_cycle := t\<rparr>) t' =
        Some (z1\<lparr>current_cycle := t, current_cycle := t'\<rparr>)"
      by (simp add: z80_run_frozen)
    then show "z80_run H ops z t = Some (z1\<lparr>current_cycle := t\<rparr>) \<and> busack z1 = 1 \<and>
      z80_run H ops (z1\<lparr>current_cycle := t\<rparr>) t' = Some (z1\<lparr>current_cycle := t'\<rparr>)"
      using p by simp
  qed
  show ?thesis
    using a b by (simp add: z80_assert_busreq_def z80_clear_busreq_def)
qed

theorem z80_busreq_handshake_witness:
  "busack busreq_pending = 0 \<and> reset busreq_pending = 0 \<and> current_cycle busreq_pending < 150 \<and>
   z80_run_setup backend_unmapped busreq_pending 150 =
     Some (busreq_pending\<lparr>m_icount := 10\<rparr>, INT_MIN) \<and>
   z80_run_body backend_unmapped (op_switch_fragment backend_unmapped) 150
     (busreq_pending\<lparr>m_icount := 10\<rparr>, INT_MIN) = Some (busreq_after_pass, INT_MIN) \<and>
   busreq busreq_after_pass \<noteq> 0 \<and>
   z80_run backend_unmapped (op_switch_fragment backend_unmapped) busreq_pending 150 =
     Some (busreq_after_pass\<lparr>current_cycle := 150\<rparr>) \<and>
   busack busreq_after_pass = 1 \<and>
   z80_run backend_unmapped (op_switch_fragment backend_unmapped)
     (busreq_after_pass\<lparr>current_cycle := 150\<rparr>) 300 =
     Some (busreq_after_pass\<lparr>current_cycle := 300\<rparr>)"
proof -
  have g: "busack busreq_pending = 0 \<and> reset busreq_pending = 0 \<and>
      current_cycle busreq_pending < 150 \<and> busreq busreq_after_pass \<noteq> 0"
    by (simp add: busreq_pending_def busreq_after_pass_def z80_assert_busreq_def
        ld_hl_a_program_def running_z80_def z80_calloc_def)
  note h = z80_busreq_handshake [of busreq_pending 0 backend_unmapped
      "op_switch_fragment backend_unmapped" 150 "(busreq_pending\<lparr>m_icount := 10\<rparr>, INT_MIN)"
      busreq_after_pass INT_MIN 300]
  from h have "busack busreq_pending = 0 \<and> reset busreq_pending = 0 \<and>
      current_cycle busreq_pending < 150 \<and>
      z80_run_setup backend_unmapped busreq_pending 150 =
        Some (busreq_pending\<lparr>m_icount := 10\<rparr>, INT_MIN) \<and>
      z80_run_body backend_unmapped (op_switch_fragment backend_unmapped) 150
        (busreq_pending\<lparr>m_icount := 10\<rparr>, INT_MIN) = Some (busreq_after_pass, INT_MIN) \<and>
      busreq busreq_after_pass \<noteq> 0 \<longrightarrow>
      z80_run backend_unmapped (op_switch_fragment backend_unmapped) busreq_pending 150 =
        Some (busreq_after_pass\<lparr>current_cycle := 150\<rparr>) \<and>
      busack busreq_after_pass = 1 \<and>
      z80_run backend_unmapped (op_switch_fragment backend_unmapped)
        (busreq_after_pass\<lparr>current_cycle := 150\<rparr>) 300 =
        Some (busreq_after_pass\<lparr>current_cycle := 300\<rparr>)"
    by blast
  then show ?thesis
    using g busreq_pending_setup busreq_pending_body by blast
qed

text \<open>
  Claim C9 as the spec words it allows no memory write in any \<open>z80_run\<close> after the
  request. With \<open>LD (HL),A\<close> at the program counter, \<open>busreq\<close> asserted and
  \<open>busack\<close> still clear, the next \<open>z80_run\<close> executes that opcode before it
  freezes: the byte at \<open>HL = 0x0010\<close> (host address \<open>0x10010\<close>) was 0 and is
  \<open>0x5A\<close> afterwards.
\<close>

theorem z80_busreq_write_after_request:
  "busreq busreq_pending = 1 \<and> busack busreq_pending = 0 \<and>
   host_mem busreq_pending 0x10010 = 0 \<and>
   map_option (\<lambda>z. (host_mem z 0x10010, busack z, current_cycle z))
     (z80_run backend_unmapped (op_switch_fragment backend_unmapped) busreq_pending 150)
     = Some (0x5A, 1, 150)"
proof -
  have g: "busack busreq_pending = 0" "reset busreq_pending = 0"
      "current_cycle busreq_pending < 150" "busreq busreq_after_pass \<noteq> 0"
    by (simp_all add: busreq_pending_def busreq_after_pass_def z80_assert_busreq_def
        ld_hl_a_program_def running_z80_def z80_calloc_def)
  have r: "z80_run backend_unmapped (op_switch_fragment backend_unmapped) busreq_pending 150 =
      Some (busreq_after_pass\<lparr>current_cycle := 150\<rparr>)"
    using z80_run_busreq_one_pass [OF g(1,2,3) busreq_pending_setup busreq_pending_body g(4)]
    by simp
  show ?thesis
    unfolding r
    by (simp add: busreq_pending_def busreq_after_pass_def z80_assert_busreq_def
        ld_hl_a_program_def running_z80_def z80_calloc_def)
qed


section \<open>The memory map and the fast-path tables\<close>

text \<open>
  Modelled from the spec: \<open>memmap_chunk\<close> and its flags are declared in
  ../backend.h, which is not among the sources. A chunk covers \<open>start\<close> to \<open>end\<close>,
  declares flags (READ, WRITE, CODE, ONLY_ODD, ONLY_EVEN, PTR_IDX, FUNC_NULL), and
  optionally names a buffer and a pointer-index slot; the flag word is kept as the set
  of flags it has, so that \<open>flags & MMAP_READ\<close> is membership.
\<close>

datatype mmap_flag = MMAP_READ | MMAP_WRITE | MMAP_CODE | MMAP_ONLY_ODD | MMAP_ONLY_EVEN
  | MMAP_PTR_IDX | MMAP_FUNC_NULL

record memmap_chunk =
  chunk_start :: "32 word"
  chunk_end :: "32 word"
  chunk_mask :: "32 word"
  chunk_flags :: "mmap_flag set"
  chunk_ptr_index :: "8 word"
  chunk_buffer :: nat

text \<open>
  \<open>find_map_chunk\<close> and \<open>get_native_pointer\<close> are functions of ../backend.c, not
  among the sources; each initialiser calls them with the page address, its own options
  and its own \<open>mem_pointers\<close>, so here they are functions of the address, taken as
  parameters. A null result is \<open>None\<close> for the chunk and 0 for the pointer.
\<close>

record memmap_lookup =
  find_map_chunk :: "32 word \<Rightarrow> memmap_chunk option"
  get_native_pointer :: "32 word \<Rightarrow> nat"

text \<open>One pass of the \<open>for\<close> loop at the end of \<open>init_z80_context\<close>, for the page
  that starts at \<open>address\<close>.\<close>

definition z80_init_page :: "memmap_lookup \<Rightarrow> 32 word \<Rightarrow> z80_device \<Rightarrow> z80_device" where
  "z80_init_page M address z80 =
    (let idx = unat (drop_bit 13 address);
         z1 = z80\<lparr>read_pointers := (read_pointers z80)(idx := 0)\<rparr>;
         z2 = z1\<lparr>write_pointers := (write_pointers z1)(idx := 0)\<rparr>
     in case find_map_chunk M address of
          None \<Rightarrow> z2
        | Some chunk \<Rightarrow>
            if chunk_end chunk < address + 8 * 1024 \<or> MMAP_PTR_IDX \<in> chunk_flags chunk \<or>
               chunk_buffer chunk = 0
            then z2
            else (let ptr = get_native_pointer M address
                  in if ptr = 0 then z2
                     else (let z3 = (if MMAP_READ \<in> chunk_flags chunk
                                     then z2\<lparr>read_pointers := (read_pointers z2)(idx := ptr)\<rparr>
                                     else z2)
                           in if MMAP_WRITE \<in> chunk_flags chunk
                              then z3\<lparr>write_pointers := (write_pointers z3)(idx := ptr)\<rparr>
                              else z3)))"

text \<open>The loop: \<open>address\<close> runs from 0 in steps of 8 KiB while below 64 KiB.\<close>

definition z80_init_pointers :: "memmap_lookup \<Rightarrow> z80_device \<Rightarrow> z80_device" where
  "z80_init_pointers M z80 = fold (\<lambda>i. z80_init_page M (of_nat (i * 8192))) [0..<8] z80"

text \<open>
  \<open>init_z80_context\<close> after the flag tables: the zeroed context, the options, the
  register reset (\<open>IX = IY = 0xffff\<close>, \<open>F = ZF\<close>), the cycle tables and the page
  loop. Of the options the context keeps the clock divider and the I/O address mask.
\<close>

definition init_z80_context :: "memmap_lookup \<Rightarrow> 32 word \<Rightarrow> 32 word \<Rightarrow> z80_device" where
  "init_z80_context M divider io_mask =
    (let z0 = z80_calloc\<lparr>clock_divider := divider, io_address_mask := io_mask\<rparr>;
         z1 = z0\<lparr>m_prvpc := 0, m_pc := 0, m_sp := 0, m_af := 0, m_bc := 0, m_de := 0,
                 m_hl := 0, m_ix := 0, m_iy := 0, m_wz := set_w_l (m_wz z0) 0,
                 m_af2 := 0, m_bc2 := 0, m_de2 := 0, m_hl2 := 0, m_r := 0, m_r2 := 0,
                 m_iff1 := 0, m_iff2 := 0, m_halt := 0, m_im := 0, m_i := 0,
                 m_nmi_state := 0, m_nmi_pending := 0, m_irq_state := 0, m_wait_state := 0,
                 busreq := 0, m_after_ei := 0, m_after_ldair := 0, m_ea := 0\<rparr>;
         z2 = z1\<lparr>m_iy := set_w_l (m_iy z1) 0xffff\<rparr>;
         z3 = z2\<lparr>m_ix := set_w_l (m_ix z2) (w_l (m_iy z2))\<rparr>;
         z4 = z3\<lparr>m_af := set_b_l (m_af z3) (word_of_int ZF)\<rparr>;
         z5 = z4\<lparr>m_cc_op := cc_op, m_cc_cb := cc_cb, m_cc_ed := cc_ed, m_cc_xy := cc_xy,
                 m_cc_xycb := cc_xycb, m_cc_ex := cc_ex\<rparr>
     in z80_init_pointers M z5)"

section \<open>The 68000 core\<close>

text \<open>
  Modelled from the spec: \<open>m68000_base_device\<close> is declared in m68kcpu.h, which is not
  among the sources. The record has the fields that the functions of the core file
  read and write, typed after the spec's data model: the sixteen data and address
  registers (\<open>REG_SP\<close> is register 15) with the two shadow copies of A7, \<open>PC\<close> and
  \<open>PPC\<close>, the status bits \<open>T1 T0 S M\<close> and the interrupt mask, \<open>IR\<close>, the control
  fields, the per-instance cycle tables, the fields of the embedded context \<open>c\<close>
  (prefixed \<open>c_\<close>; of \<open>c.options\<close> only \<open>gen.clock_divider\<close>), and the two
  fast-path tables indexed by \<open>address >> 16\<close>. Host pointers are addresses into
  \<open>m68k_host_mem\<close>, 0 being the null pointer. The handler table \<open>jump_table\<close> is a
  parameter of the run loop below.
\<close>

datatype m68k_run_mode = RUN_MODE_NORMAL | RUN_MODE_BERR_AERR_RESET

datatype m68k_cpu_type = CPU_TYPE_UNSET | CPU_TYPE_000 | CPU_TYPE_008 | CPU_TYPE_010
  | CPU_TYPE_EC020 | CPU_TYPE_020 | CPU_TYPE_EC030 | CPU_TYPE_030 | CPU_TYPE_EC040
  | CPU_TYPE_040 | CPU_TYPE_FSCPU32

record m68000_base_device =
  cpu_type :: m68k_cpu_type
  dar :: "nat \<Rightarrow> 32 word"
  sp_user :: "32 word"
  sp_super :: "32 word"
  ppc :: "32 word"
  pc :: "32 word"
  ir :: "32 word"
  t1_flag :: "32 word"
  t0_flag :: "32 word"
  s_flag :: "32 word"
  m_flag :: "32 word"
  int_mask :: "32 word"
  stopped :: "32 word"
  pref_addr :: "32 word"
  sr_mask :: "32 word"
  instr_mode :: "32 word"
  run_mode :: m68k_run_mode
  cyc_bcc_notake_b :: "32 word"
  cyc_bcc_notake_w :: "32 word"
  cyc_dbcc_f_noexp :: "32 word"
  cyc_dbcc_f_exp :: "32 word"
  cyc_scc_r_true :: "32 word"
  cyc_movem_w :: "32 word"
  cyc_movem_l :: "32 word"
  cyc_shift :: "32 word"
  cyc_reset :: "32 word"
  cyc_instruction :: "8 word list"
  cyc_exception :: "8 word list"
  c_clock_divider :: "32 word"
  c_current_cycle :: "32 word"
  c_target_cycle :: "32 word"
  c_status :: "32 word"
  c_int_pending :: "8 word"
  c_int_ack :: "8 word"
  m68k_read_pointers :: "nat \<Rightarrow> nat"
  m68k_write_pointers :: "nat \<Rightarrow> nat"
  m68k_host_mem :: "nat \<Rightarrow> 8 word"

text \<open>
  What the core file calls but does not define. The four map accessors are
  \<open>read_byte\<close>, \<open>write_byte\<close>, \<open>read_word\<close> and \<open>write_word\<close> of ../backend.h
  applied to the 68k context; \<open>m68ki_check_interrupts\<close>, \<open>m68ki_trace_t1\<close>,
  \<open>m68ki_exception_if_trace\<close> and \<open>m68ki_get_sr\<close> come from m68kcpu.h;
  \<open>jump_table\<close> is the handler table of m68kops, a handler with no result being
  \<open>None\<close>.
\<close>

record m68k_backend =
  m68k_read_byte :: "32 word \<Rightarrow> m68000_base_device \<Rightarrow> 8 word \<times> m68000_base_device"
  m68k_write_byte :: "32 word \<Rightarrow> 8 word \<Rightarrow> m68000_base_device \<Rightarrow> m68000_base_device"
  m68k_read_word :: "32 word \<Rightarrow> m68000_base_device \<Rightarrow> 16 word \<times> m68000_base_device"
  m68k_write_word :: "32 word \<Rightarrow> 16 word \<Rightarrow> m68000_base_device \<Rightarrow> m68000_base_device"
  m68ki_check_interrupts :: "m68000_base_device \<Rightarrow> m68000_base_device"
  m68ki_trace_t1 :: "m68000_base_device \<Rightarrow> m68000_base_device"
  m68ki_exception_if_trace :: "m68000_base_device \<Rightarrow> m68000_base_device"
  m68ki_get_sr :: "m68000_base_device \<Rightarrow> 32 word"
  jump_table :: "32 word \<Rightarrow> m68000_base_device \<Rightarrow> m68000_base_device option"

subsection \<open>The data memory interface\<close>

text \<open>
  The fast path of the 16-bit accessors indexes the page's buffer as an array of
  \<open>uint16_t\<close>. The host is little-endian (the \<open>address ^ 1\<close> of the byte accessors
  presupposes it): the word at host address \<open>p\<close> has its low byte at \<open>p\<close> and its high
  byte at \<open>p + 1\<close>.
\<close>

definition host_load16 :: "(nat \<Rightarrow> 8 word) \<Rightarrow> nat \<Rightarrow> 16 word" where
  "host_load16 mem p = ucast (mem p) OR push_bit 8 (ucast (mem (p + 1)))"

definition host_store16 :: "(nat \<Rightarrow> 8 word) \<Rightarrow> nat \<Rightarrow> 16 word \<Rightarrow> (nat \<Rightarrow> 8 word)" where
  "host_store16 mem p v = mem(p := ucast v, p + 1 := ucast (drop_bit 8 v))"

definition m68ki_read_8 ::
  "m68k_backend \<Rightarrow> m68000_base_device \<Rightarrow> 32 word \<Rightarrow> 8 word \<times> m68000_base_device" where
  "m68ki_read_8 H m68k address0 =
    (let address = address0 AND 0xFFFFFF;
         base = unat (drop_bit 16 address)
     in if m68k_read_pointers m68k base \<noteq> 0
        then (m68k_host_mem m68k
                (m68k_read_pointers m68k base + unat ((address XOR 1) AND 0xFFFF)), m68k)
        else m68k_read_byte H address m68k)"

definition m68ki_write_8 ::
  "m68k_backend \<Rightarrow> m68000_base_device \<Rightarrow> 32 word \<Rightarrow> 8 word \<Rightarrow> m68000_base_device" where
  "m68ki_write_8 H m68k address0 v =
    (let address = address0 AND 0xFFFFFF;
         base = unat (drop_bit 16 address)
     in if m68k_write_pointers m68k base \<noteq> 0
        then m68k\<lparr>m68k_host_mem := (m68k_host_mem m68k)
               (m68k_write_pointers m68k base + unat ((address XOR 1) AND 0xFFFF) := v)\<rparr>
        else m68k_write_byte H address v m68k)"

definition m68ki_read_16 ::
  "m68k_backend \<Rightarrow> m68000_base_device \<Rightarrow> 32 word \<Rightarrow> 16 word \<times> m68000_base_device" where
  "m68ki_read_16 H m68k address0 =
    (let address = address0 AND 0xFFFFFF;
         base = unat (drop_bit 16 address)
     in if m68k_read_pointers m68k base \<noteq> 0
        then (host_load16 (m68k_host_mem m68k)
                (m68k_read_pointers m68k base + 2 * unat (drop_bit 1 address AND 0x7FFF)), m68k)
        else m68k_read_word H address m68k)"

text \<open>
  \<open>m68ki_write_16\<close> tests \<open>write_pointers[base]\<close> and then takes its buffer from
  \<open>read_pointers[base]\<close>. A store through a null buffer pointer has no defined
  result.
\<close>

datatype m68k_fault = NullPointerStore

definition m68ki_write_16 ::
  "m68k_backend \<Rightarrow> m68000_base_device \<Rightarrow> 32 word \<Rightarrow> 16 word
     \<Rightarrow> m68k_fault + m68000_base_device" where
  "m68ki_write_16 H m68k address0 v =
    (let address = address0 AND 0xFFFFFF;
         base = unat (drop_bit 16 address)
     in if m68k_write_pointers m68k base \<noteq> 0
        then (let chunk = m68k_read_pointers m68k base
              in if chunk = 0 then Inl NullPointerStore
                 else Inr (m68k\<lparr>m68k_host_mem := host_store16 (m68k_host_mem m68k)
                             (chunk + 2 * unat (drop_bit 1 address AND 0x7FFF)) v\<rparr>))
        else Inr (m68k_write_word H address v m68k))"

subsection \<open>Reset\<close>

text \<open>
  Modelled from the spec: the helpers that \<open>m68k_reset_cpu\<close> and the run loop call are
  macros and inline functions of m68kcpu.h, not among the sources. The spec has S at
  bit 13 and M at bit 12 of SR and the core keeps \<open>status = SR >> 8\<close>; the flag fields
  hold their bit of \<open>SR >> 11\<close>. \<open>m68ki_set_sm_flag\<close> exchanges A7 with the shadow
  copy of the mode it leaves and enters (two copies, user and supervisor).
  \<open>m68ki_jump\<close> loads PC. Fetch is prefetch-free: \<open>m68ki_read_imm_16\<close> reads the word
  at PC through the memory map and advances PC by 2, and \<open>m68ki_read_imm_32\<close> reads
  two such words, the high one first. Vector 0 is the reset vector.
\<close>

definition SFLAG_SET :: "32 word" where "SFLAG_SET = 4"
definition MFLAG_SET :: "32 word" where "MFLAG_SET = 2"
definition MFLAG_CLEAR :: "32 word" where "MFLAG_CLEAR = 0"
definition EXCEPTION_RESET :: nat where "EXCEPTION_RESET = 0"

definition REG_SP :: "m68000_base_device \<Rightarrow> 32 word" where
  "REG_SP m = dar m 15"

definition m68ki_set_sm_flag :: "m68000_base_device \<Rightarrow> 32 word \<Rightarrow> m68000_base_device" where
  "m68ki_set_sm_flag m v =
    (let m1 = (if s_flag m \<noteq> 0 then m\<lparr>sp_super := REG_SP m\<rparr> else m\<lparr>sp_user := REG_SP m\<rparr>);
         m2 = m1\<lparr>s_flag := v AND SFLAG_SET, m_flag := v AND MFLAG_SET\<rparr>
     in m2\<lparr>dar := (dar m2)(15 := (if s_flag m2 \<noteq> 0 then sp_super m2 else sp_user m2))\<rparr>)"

definition m68ki_jump :: "m68000_base_device \<Rightarrow> 32 word \<Rightarrow> m68000_base_device" where
  "m68ki_jump m new_pc = m\<lparr>pc := new_pc\<rparr>"

definition m68ki_read_imm_16 ::
  "m68k_backend \<Rightarrow> m68000_base_device \<Rightarrow> 16 word \<times> m68000_base_device" where
  "m68ki_read_imm_16 H m =
    (let (w, m1) = m68ki_read_16 H m (pc m) in (w, m1\<lparr>pc := pc m1 + 2\<rparr>))"

definition m68ki_read_imm_32 ::
  "m68k_backend \<Rightarrow> m68000_base_device \<Rightarrow> 32 word \<times> m68000_base_device" where
  "m68ki_read_imm_32 H m =
    (let (hi, m1) = m68ki_read_imm_16 H m;
         (lo, m2) = m68ki_read_imm_16 H m1
     in (push_bit 16 (ucast hi) OR ucast lo, m2))"

text \<open>\<open>m68k_reset_cpu\<close>, statement by statement. The cycle charge reads
  \<open>cyc_exception[EXCEPTION_RESET]\<close> through the table pointer.\<close>

definition m68k_reset_cpu :: "m68k_backend \<Rightarrow> m68000_base_device \<Rightarrow> m68000_base_device option" where
  "m68k_reset_cpu H this =
    (let m1 = this\<lparr>stopped := 0\<rparr>;
         m2 = m1\<lparr>run_mode := RUN_MODE_BERR_AERR_RESET\<rparr>;
         m3 = m68ki_set_sm_flag m2 (SFLAG_SET OR MFLAG_CLEAR);
         m4 = m3\<lparr>pref_addr := 0x1000\<rparr>;
         m5 = m68ki_jump m4 0;
         (sp, m6) = m68ki_read_imm_32 H m5;
         m7 = m6\<lparr>dar := (dar m6)(15 := sp)\<rparr>;
         (new_pc, m8) = m68ki_read_imm_32 H m7;
         m9 = m8\<lparr>pc := new_pc\<rparr>;
         m10 = m68ki_jump m9 (pc m9);
         m11 = m10\<lparr>run_mode := RUN_MODE_NORMAL\<rparr>
     in map_option (\<lambda>c. m11\<lparr>c_current_cycle := c_current_cycle m11 + c\<rparr>)
          (cc_at (cyc_exception m11) EXCEPTION_RESET))"

subsection \<open>The run loop\<close>




subsection \<open>Initialisation\<close>

text \<open>\<open>m68ki_exception_cycle_table[0]\<close>, the exception cycles of the 68000.\<close>

definition m68ki_exception_cycle_table_000 :: "8 word list" where
  "m68ki_exception_cycle_table_000 =
    [40, 4, 50, 50, 34, 38, 40, 34, 34, 34, 4, 4, 4, 4, 4, 44,
     4, 4, 4, 4, 4, 4, 4, 4, 44, 44, 44, 44, 44, 44, 44, 44,
     34, 34, 34, 34, 34, 34, 34, 34, 34, 34, 34, 34, 34, 34, 34, 34,
     4, 4, 4, 4, 4, 4, 4, 4, 4, 4, 4, 4, 4, 4, 4, 4,
     4, 4, 4, 4, 4, 4, 4, 4, 4, 4, 4, 4, 4, 4, 4, 4,
     4, 4, 4, 4, 4, 4, 4, 4, 4, 4, 4, 4, 4, 4, 4, 4,
     4, 4, 4, 4, 4, 4, 4, 4, 4, 4, 4, 4, 4, 4, 4, 4,
     4, 4, 4, 4, 4, 4, 4, 4, 4, 4, 4, 4, 4, 4, 4, 4,
     4, 4, 4, 4, 4, 4, 4, 4, 4, 4, 4, 4, 4, 4, 4, 4,
     4, 4, 4, 4, 4, 4, 4, 4, 4, 4, 4, 4, 4, 4, 4, 4,
     4, 4, 4, 4, 4, 4, 4, 4, 4, 4, 4, 4, 4, 4, 4, 4,
     4, 4, 4, 4, 4, 4, 4, 4, 4, 4, 4, 4, 4, 4, 4, 4,
     4, 4, 4, 4, 4, 4, 4, 4, 4, 4, 4, 4, 4, 4, 4, 4,
     4, 4, 4, 4, 4, 4, 4, 4, 4, 4, 4, 4, 4, 4, 4, 4,
     4, 4, 4, 4, 4, 4, 4, 4, 4, 4, 4, 4, 4, 4, 4, 4,
     4, 4, 4, 4, 4, 4, 4, 4, 4, 4, 4, 4, 4, 4, 4, 4]"

text \<open>One pass of the \<open>for\<close> loop at the end of \<open>m68k_init_cpu_m68000\<close>, for the page
  that starts at \<open>address\<close>.\<close>

definition m68k_init_page ::
  "memmap_lookup \<Rightarrow> 32 word \<Rightarrow> m68000_base_device \<Rightarrow> m68000_base_device" where
  "m68k_init_page M address this =
    (let idx = unat (drop_bit 16 address);
         m1 = this\<lparr>m68k_read_pointers := (m68k_read_pointers this)(idx := 0)\<rparr>;
         m2 = m1\<lparr>m68k_write_pointers := (m68k_write_pointers m1)(idx := 0)\<rparr>
     in case find_map_chunk M address of
          None \<Rightarrow> m2
        | Some chunk \<Rightarrow>
            if chunk_end chunk < address + 64 * 1024 \<or>
               (MMAP_ONLY_ODD \<in> chunk_flags chunk \<or> MMAP_ONLY_EVEN \<in> chunk_flags chunk) \<or>
               chunk_buffer chunk = 0
            then m2
            else (let ptr = get_native_pointer M address
                  in if ptr = 0 then m2
                     else (let m3 = (if MMAP_READ \<in> chunk_flags chunk
                                     then m2\<lparr>m68k_read_pointers :=
                                            (m68k_read_pointers m2)(idx := ptr)\<rparr>
                                     else m2)
                           in if MMAP_WRITE \<in> chunk_flags chunk
                              then m3\<lparr>m68k_write_pointers :=
                                     (m68k_write_pointers m3)(idx := ptr)\<rparr>
                              else m3)))"

text \<open>The loop: \<open>address\<close> runs from 0 in steps of 64 KiB while below
  \<open>24*1024*1024\<close>, that is over 384 pages.\<close>

definition m68k_init_pointers ::
  "memmap_lookup \<Rightarrow> m68000_base_device \<Rightarrow> m68000_base_device" where
  "m68k_init_pointers M this =
     fold (\<lambda>i. m68k_init_page M (of_nat (i * 65536))) [0..<384] this"

text \<open>
  \<open>m68k_init_cpu_m68000\<close>. \<open>cycles\<close> is \<open>m68ki_cycles[0]\<close>, a table of m68kops that
  is not among the sources. Each entry of the two per-instance tables is the product
  with the clock divider cut to \<open>uint8_t\<close>.
\<close>

definition scale_cycles :: "32 word \<Rightarrow> 8 word list \<Rightarrow> 8 word list" where
  "scale_cycles divider tab = map (\<lambda>c. ucast ((ucast c :: 32 word) * divider)) tab"

definition m68k_init_cpu_common :: "m68000_base_device \<Rightarrow> m68000_base_device" where
  "m68k_init_cpu_common this = this\<lparr>c_current_cycle := 0\<rparr>"

definition m68k_init_cpu_m68000 ::
  "m68k_backend \<Rightarrow> memmap_lookup \<Rightarrow> 8 word list \<Rightarrow> m68000_base_device
     \<Rightarrow> m68000_base_device" where
  "m68k_init_cpu_m68000 H M cycles this =
    (let m1 = m68k_init_cpu_common this;
         d = c_clock_divider m1;
         m2 = m1\<lparr>cpu_type := CPU_TYPE_000, sr_mask := 0xa71f,
                 cyc_instruction := scale_cycles d cycles,
                 cyc_exception := scale_cycles d m68ki_exception_cycle_table_000,
                 cyc_bcc_notake_b := - 2 * d, cyc_bcc_notake_w := 2 * d,
                 cyc_dbcc_f_noexp := - 2 * d, cyc_dbcc_f_exp := 2 * d,
                 cyc_scc_r_true := 2 * d, cyc_movem_w := 2, cyc_movem_l := 3,
                 cyc_shift := 1, cyc_reset := 132 * d, int_mask := push_bit 8 7\<rparr>;
         m3 = m2\<lparr>c_status := drop_bit 8 (m68ki_get_sr H m2)\<rparr>
     in m68k_init_pointers M m3)"


section \<open>Facts about the 68000 model\<close>

subsection \<open>The run loop\<close>






subsection \<open>Running to a deadline\<close>













text \<open>The zeroed 68000 context, and an instance of the parts of the 68k core that are
  not among the sources, for the concrete runs of its loop: every word the map
  resolves reads \<open>0x4E71\<close> (NOP), whose handler changes nothing; no interrupt is
  pending and trace is off; SR is assembled from S, M and the interrupt mask.\<close>

definition m68k_calloc :: m68000_base_device where
  "m68k_calloc = \<lparr>cpu_type = CPU_TYPE_UNSET, dar = (\<lambda>_. 0), sp_user = 0, sp_super = 0, ppc = 0,
     pc = 0, ir = 0, t1_flag = 0, t0_flag = 0, s_flag = 0, m_flag = 0, int_mask = 0,
     stopped = 0, pref_addr = 0, sr_mask = 0, instr_mode = 0, run_mode = RUN_MODE_NORMAL,
     cyc_bcc_notake_b = 0, cyc_bcc_notake_w = 0, cyc_dbcc_f_noexp = 0, cyc_dbcc_f_exp = 0,
     cyc_scc_r_true = 0, cyc_movem_w = 0, cyc_movem_l = 0, cyc_shift = 0, cyc_reset = 0,
     cyc_instruction = [], cyc_exception = [], c_clock_divider = 0, c_current_cycle = 0,
     c_target_cycle = 0, c_status = 0, c_int_pending = 0, c_int_ack = 0,
     m68k_read_pointers = (\<lambda>_. 0), m68k_write_pointers = (\<lambda>_. 0),
     m68k_host_mem = (\<lambda>_. 0)\<rparr>"

definition m68k_backend_nop :: m68k_backend where
  "m68k_backend_nop = \<lparr>m68k_read_byte = (\<lambda>a m. (0, m)), m68k_write_byte = (\<lambda>a v m. m),
     m68k_read_word = (\<lambda>a m. (0x4E71, m)), m68k_write_word = (\<lambda>a v m. m),
     m68ki_check_interrupts = (\<lambda>m. m), m68ki_trace_t1 = (\<lambda>m. m),
     m68ki_exception_if_trace = (\<lambda>m. m),
     m68ki_get_sr = (\<lambda>m. push_bit 11 (s_flag m OR m_flag m) OR int_mask m),
     jump_table = (\<lambda>op m. if op = 0x4E71 then Some m else None)\<rparr>"
















subsection \<open>The fast-path tables after initialisation\<close>

text \<open>
  What one pass of either page loop leaves in the page's slot of the table for
  \<open>access\<close> (\<open>MMAP_READ\<close> or \<open>MMAP_WRITE\<close>): null unless the chunk passes the
  initialiser's guard and declares the access, and the native pointer otherwise.
\<close>

definition m68k_page_pointer :: "memmap_lookup \<Rightarrow> mmap_flag \<Rightarrow> 32 word \<Rightarrow> nat" where
  "m68k_page_pointer M access address =
    (case find_map_chunk M address of
       None \<Rightarrow> 0
     | Some chunk \<Rightarrow>
         if chunk_end chunk < address + 64 * 1024 \<or> MMAP_ONLY_ODD \<in> chunk_flags chunk \<or>
            MMAP_ONLY_EVEN \<in> chunk_flags chunk \<or> chunk_buffer chunk = 0 \<or>
            access \<notin> chunk_flags chunk
         then 0 else get_native_pointer M address)"

definition z80_page_pointer :: "memmap_lookup \<Rightarrow> mmap_flag \<Rightarrow> 32 word \<Rightarrow> nat" where
  "z80_page_pointer M access address =
    (case find_map_chunk M address of
       None \<Rightarrow> 0
     | Some chunk \<Rightarrow>
         if chunk_end chunk < address + 8 * 1024 \<or> MMAP_PTR_IDX \<in> chunk_flags chunk \<or>
            chunk_buffer chunk = 0 \<or> access \<notin> chunk_flags chunk
         then 0 else get_native_pointer M address)"

lemma m68k_init_page_slot:
  "m68k_read_pointers (m68k_init_page M address m) (unat (drop_bit 16 address))
     = m68k_page_pointer M MMAP_READ address"
  "m68k_write_pointers (m68k_init_page M address m) (unat (drop_bit 16 address))
     = m68k_page_pointer M MMAP_WRITE address"
  by (simp_all add: m68k_init_page_def m68k_page_pointer_def Let_def split: option.split)

lemma m68k_init_page_other:
  assumes "j \<noteq> unat (drop_bit 16 address)"
  shows "m68k_read_pointers (m68k_init_page M address m) j = m68k_read_pointers m j"
    and "m68k_write_pointers (m68k_init_page M address m) j = m68k_write_pointers m j"
  using assms by (simp_all add: m68k_init_page_def Let_def split: option.split)

lemma m68k_init_page_host_mem:
  "m68k_host_mem (m68k_init_page M address m) = m68k_host_mem m"
  by (simp add: m68k_init_page_def Let_def split: option.split)

lemma z80_init_page_slot:
  "read_pointers (z80_init_page M address z) (unat (drop_bit 13 address))
     = z80_page_pointer M MMAP_READ address"
  "write_pointers (z80_init_page M address z) (unat (drop_bit 13 address))
     = z80_page_pointer M MMAP_WRITE address"
  by (simp_all add: z80_init_page_def z80_page_pointer_def Let_def split: option.split)

lemma z80_init_page_other:
  assumes "j \<noteq> unat (drop_bit 13 address)"
  shows "read_pointers (z80_init_page M address z) j = read_pointers z j"
    and "write_pointers (z80_init_page M address z) j = write_pointers z j"
  using assms by (simp_all add: z80_init_page_def Let_def split: option.split)

lemma page_index:
  fixes i k :: nat
  assumes "i * 2 ^ k < 2 ^ 32"
  shows "unat (drop_bit k (of_nat (i * 2 ^ k) :: 32 word)) = i"
proof -
  define w :: "32 word" where "w = of_nat (i * 2 ^ k)"
  have 1: "unat w = i * 2 ^ k"
    unfolding w_def using assms by (subst unat_of_nat) simp
  have "unat (drop_bit k w) = unat w div 2 ^ k"
    by (subst unat_drop_bit_eq) (simp only: drop_bit_eq_div)
  with 1 have "unat (drop_bit k w) = i"
    by simp
  then show ?thesis
    unfolding w_def .
qed

lemma m68k_page_index: "i < 384 \<Longrightarrow> unat (drop_bit 16 (of_nat (i * 65536) :: 32 word)) = i"
  using page_index [of i 16] by simp

lemma z80_page_index: "i < 8 \<Longrightarrow> unat (drop_bit 13 (of_nat (i * 8192) :: 32 word)) = i"
  using page_index [of i 13] by simp

lemma m68k_init_fold:
  assumes "n \<le> 384" "i < n"
  shows "m68k_read_pointers (fold (\<lambda>i. m68k_init_page M (of_nat (i * 65536))) [0..<n] m) i
           = m68k_page_pointer M MMAP_READ (of_nat (i * 65536)) \<and>
         m68k_write_pointers (fold (\<lambda>i. m68k_init_page M (of_nat (i * 65536))) [0..<n] m) i
           = m68k_page_pointer M MMAP_WRITE (of_nat (i * 65536))"
  using assms
proof (induction n)
  case 0
  then show ?case by simp
next
  case (Suc n)
  let ?s = "fold (\<lambda>i. m68k_init_page M (of_nat (i * 65536))) [0..<n] m"
  have n: "unat (drop_bit 16 (of_nat (n * 65536) :: 32 word)) = n"
    using Suc.prems by (intro m68k_page_index) simp
  show ?case
  proof (cases "i = n")
    case True
    then show ?thesis
      using m68k_init_page_slot [of M "of_nat (n * 65536)" ?s] n by simp
  next
    case False
    then have "i < n" "n \<le> 384" "i \<noteq> unat (drop_bit 16 (of_nat (n * 65536) :: 32 word))"
      using Suc.prems n by simp_all
    then show ?thesis
      using Suc.IH m68k_init_page_other [of i "of_nat (n * 65536)" M ?s] by simp
  qed
qed

lemma z80_init_fold:
  assumes "n \<le> 8" "i < n"
  shows "read_pointers (fold (\<lambda>i. z80_init_page M (of_nat (i * 8192))) [0..<n] z) i
           = z80_page_pointer M MMAP_READ (of_nat (i * 8192)) \<and>
         write_pointers (fold (\<lambda>i. z80_init_page M (of_nat (i * 8192))) [0..<n] z) i
           = z80_page_pointer M MMAP_WRITE (of_nat (i * 8192))"
  using assms
proof (induction n)
  case 0
  then show ?case by simp
next
  case (Suc n)
  let ?s = "fold (\<lambda>i. z80_init_page M (of_nat (i * 8192))) [0..<n] z"
  have n: "unat (drop_bit 13 (of_nat (n * 8192) :: 32 word)) = n"
    using Suc.prems by (intro z80_page_index) simp
  show ?case
  proof (cases "i = n")
    case True
    then show ?thesis
      using z80_init_page_slot [of M "of_nat (n * 8192)" ?s] n by simp
  next
    case False
    then have "i < n" "n \<le> 8" "i \<noteq> unat (drop_bit 13 (of_nat (n * 8192) :: 32 word))"
      using Suc.prems n by simp_all
    then show ?thesis
      using Suc.IH z80_init_page_other [of i "of_nat (n * 8192)" M ?s] by simp
  qed
qed

lemma m68k_init_host_mem:
  "m68k_host_mem (fold (\<lambda>i. m68k_init_page M (g i)) xs m) = m68k_host_mem m"
  by (induction xs arbitrary: m) (simp_all add: m68k_init_page_host_mem)

lemma m68k_init_cpu_m68000_slot:
  assumes "i < 384"
  shows "m68k_read_pointers (m68k_init_cpu_m68000 H M cycles this) i
           = m68k_page_pointer M MMAP_READ (of_nat (i * 65536))"
    and "m68k_write_pointers (m68k_init_cpu_m68000 H M cycles this) i
           = m68k_page_pointer M MMAP_WRITE (of_nat (i * 65536))"
  using m68k_init_fold [of 384 i M] assms
  by (simp_all add: m68k_init_cpu_m68000_def m68k_init_pointers_def Let_def)

lemma m68k_init_cpu_m68000_host_mem:
  "m68k_host_mem (m68k_init_cpu_m68000 H M cycles this) = m68k_host_mem this"
  by (simp add: m68k_init_cpu_m68000_def m68k_init_pointers_def Let_def m68k_init_host_mem
      m68k_init_cpu_common_def)

lemma init_z80_context_slot:
  assumes "i < 8"
  shows "read_pointers (init_z80_context M divider io_mask) i
           = z80_page_pointer M MMAP_READ (of_nat (i * 8192))"
    and "write_pointers (init_z80_context M divider io_mask) i
           = z80_page_pointer M MMAP_WRITE (of_nat (i * 8192))"
  using z80_init_fold [of 8 i M] assms
  by (simp_all add: init_z80_context_def z80_init_pointers_def Let_def)

lemma m68k_page_pointer_installed:
  assumes "m68k_page_pointer M access address \<noteq> 0"
  shows "\<exists>chunk. find_map_chunk M address = Some chunk \<and>
           address + 64 * 1024 \<le> chunk_end chunk \<and>
           MMAP_ONLY_ODD \<notin> chunk_flags chunk \<and> MMAP_ONLY_EVEN \<notin> chunk_flags chunk \<and>
           chunk_buffer chunk \<noteq> 0 \<and> access \<in> chunk_flags chunk \<and>
           m68k_page_pointer M access address = get_native_pointer M address"
  using assms
  by (auto simp add: m68k_page_pointer_def not_less split: option.splits if_splits)

lemma z80_page_pointer_installed:
  assumes "z80_page_pointer M access address \<noteq> 0"
  shows "\<exists>chunk. find_map_chunk M address = Some chunk \<and>
           address + 8 * 1024 \<le> chunk_end chunk \<and>
           MMAP_PTR_IDX \<notin> chunk_flags chunk \<and>
           chunk_buffer chunk \<noteq> 0 \<and> access \<in> chunk_flags chunk \<and>
           z80_page_pointer M access address = get_native_pointer M address"
  using assms
  by (auto simp add: z80_page_pointer_def not_less split: option.splits if_splits)

text \<open>
  Instances of the absent lookup functions, for concrete tables. The chunks are those
  of segacd.c: program RAM as the sub CPU sees it (\<open>sub_cpu_map[1]\<close>), the program
  RAM window of the main CPU, reached through \<open>mem_pointers[0]\<close> (\<open>main_cpu_map[1]\<close>),
  and the backup RAM on the odd bytes (\<open>sub_cpu_map[4]\<close>), the last also placed at the
  bottom of a Z80 map. Each lookup resolves the addresses of its one chunk to the
  chunk and to an address in the chunk's buffer.
\<close>

definition sub_cpu_prog_ram :: memmap_chunk where
  "sub_cpu_prog_ram = \<lparr>chunk_start = 0x00FF00, chunk_end = 0x07FFFF, chunk_mask = 0,
     chunk_flags = {MMAP_READ, MMAP_WRITE, MMAP_CODE}, chunk_ptr_index = 0,
     chunk_buffer = 0x100000\<rparr>"

definition main_cpu_prog_ram :: memmap_chunk where
  "main_cpu_prog_ram = \<lparr>chunk_start = 0x020000, chunk_end = 0x03FFFF, chunk_mask = 0x1FFFF,
     chunk_flags = {MMAP_READ, MMAP_WRITE, MMAP_PTR_IDX, MMAP_FUNC_NULL}, chunk_ptr_index = 0,
     chunk_buffer = 0x100000\<rparr>"

definition odd_byte_ram :: memmap_chunk where
  "odd_byte_ram = \<lparr>chunk_start = 0, chunk_end = 0x3FFF, chunk_mask = 0x3FFF,
     chunk_flags = {MMAP_READ, MMAP_WRITE, MMAP_ONLY_ODD}, chunk_ptr_index = 0,
     chunk_buffer = 0x200000\<rparr>"

definition z80_ram :: memmap_chunk where
  "z80_ram = \<lparr>chunk_start = 0, chunk_end = 0x4000, chunk_mask = 0x1FFF,
     chunk_flags = {MMAP_READ, MMAP_WRITE, MMAP_CODE}, chunk_ptr_index = 0,
     chunk_buffer = 0x300000\<rparr>"

definition one_chunk_map :: "memmap_chunk \<Rightarrow> memmap_lookup" where
  "one_chunk_map chunk =
    \<lparr>find_map_chunk = (\<lambda>a. if chunk_start chunk \<le> a \<and> a \<le> chunk_end chunk
                             then Some chunk else None),
     get_native_pointer = (\<lambda>a. if chunk_start chunk \<le> a \<and> a \<le> chunk_end chunk
                                 then chunk_buffer chunk + unat (a - chunk_start chunk)
                                 else 0)\<rparr>"

text \<open>
  Claim C7, as the code has it. After \<open>m68k_init_cpu_m68000\<close>, a slot \<open>i < 384\<close> of
  \<open>read_pointers\<close> (\<open>write_pointers\<close>) is non-null only when \<open>find_map_chunk\<close>
  resolves the first address of the 64 KiB page \<open>i\<close> to a chunk that ends at or after
  the end of the page, names a buffer, has neither \<open>MMAP_ONLY_ODD\<close> nor
  \<open>MMAP_ONLY_EVEN\<close> and has \<open>MMAP_READ\<close> (\<open>MMAP_WRITE\<close>); the slot then holds the
  page's native pointer. After \<open>init_z80_context\<close>, a slot \<open>i < 8\<close> is non-null only
  when the chunk of the 8 KiB page \<open>i\<close> ends at or after the end of the page, names a
  buffer, does not have \<open>MMAP_PTR_IDX\<close> and has the access flag of the table; the slot
  then holds the page's native pointer.
\<close>

theorem fast_path_pointer_guards:
  "(i < 384 \<and> m68k_read_pointers (m68k_init_cpu_m68000 H M cycles this) i \<noteq> 0 \<longrightarrow>
      (\<exists>chunk. find_map_chunk M (of_nat (i * 65536)) = Some chunk \<and>
         of_nat (i * 65536) + 64 * 1024 \<le> chunk_end chunk \<and>
         MMAP_ONLY_ODD \<notin> chunk_flags chunk \<and> MMAP_ONLY_EVEN \<notin> chunk_flags chunk \<and>
         chunk_buffer chunk \<noteq> 0 \<and> MMAP_READ \<in> chunk_flags chunk \<and>
         m68k_read_pointers (m68k_init_cpu_m68000 H M cycles this) i
           = get_native_pointer M (of_nat (i * 65536)))) \<and>
   (i < 384 \<and> m68k_write_pointers (m68k_init_cpu_m68000 H M cycles this) i \<noteq> 0 \<longrightarrow>
      (\<exists>chunk. find_map_chunk M (of_nat (i * 65536)) = Some chunk \<and>
         of_nat (i * 65536) + 64 * 1024 \<le> chunk_end chunk \<and>
         MMAP_ONLY_ODD \<notin> chunk_flags chunk \<and> MMAP_ONLY_EVEN \<notin> chunk_flags chunk \<and>
         chunk_buffer chunk \<noteq> 0 \<and> MMAP_WRITE \<in> chunk_flags chunk \<and>
         m68k_write_pointers (m68k_init_cpu_m68000 H M cycles this) i
           = get_native_pointer M (of_nat (i * 65536)))) \<and>
   (j < 8 \<and> read_pointers (init_z80_context N divider io_mask) j \<noteq> 0 \<longrightarrow>
      (\<exists>chunk. find_map_chunk N (of_nat (j * 8192)) = Some chunk \<and>
         of_nat (j * 8192) + 8 * 1024 \<le> chunk_end chunk \<and>
         MMAP_PTR_IDX \<notin> chunk_flags chunk \<and>
         chunk_buffer chunk \<noteq> 0 \<and> MMAP_READ \<in> chunk_flags chunk \<and>
         read_pointers (init_z80_context N divider io_mask) j
           = get_native_pointer N (of_nat (j * 8192)))) \<and>
   (j < 8 \<and> write_pointers (init_z80_context N divider io_mask) j \<noteq> 0 \<longrightarrow>
      (\<exists>chunk. find_map_chunk N (of_nat (j * 8192)) = Some chunk \<and>
         of_nat (j * 8192) + 8 * 1024 \<le> chunk_end chunk \<and>
         MMAP_PTR_IDX \<notin> chunk_flags chunk \<and>
         chunk_buffer chunk \<noteq> 0 \<and> MMAP_WRITE \<in> chunk_flags chunk \<and>
         write_pointers (init_z80_context N divider io_mask) j
           = get_native_pointer N (of_nat (j * 8192))))"
proof (intro conjI impI; elim conjE)
  assume i: "i < 384" and p: "m68k_read_pointers (m68k_init_cpu_m68000 H M cycles this) i \<noteq> 0"
  show "\<exists>chunk. find_map_chunk M (of_nat (i * 65536)) = Some chunk \<and>
         of_nat (i * 65536) + 64 * 1024 \<le> chunk_end chunk \<and>
         MMAP_ONLY_ODD \<notin> chunk_flags chunk \<and> MMAP_ONLY_EVEN \<notin> chunk_flags chunk \<and>
         chunk_buffer chunk \<noteq> 0 \<and> MMAP_READ \<in> chunk_flags chunk \<and>
         m68k_read_pointers (m68k_init_cpu_m68000 H M cycles this) i
           = get_native_pointer M (of_nat (i * 65536))"
    using p unfolding m68k_init_cpu_m68000_slot(1) [OF i]
    by (rule m68k_page_pointer_installed)
next
  assume i: "i < 384" and p: "m68k_write_pointers (m68k_init_cpu_m68000 H M cycles this) i \<noteq> 0"
  show "\<exists>chunk. find_map_chunk M (of_nat (i * 65536)) = Some chunk \<and>
         of_nat (i * 65536) + 64 * 1024 \<le> chunk_end chunk \<and>
         MMAP_ONLY_ODD \<notin> chunk_flags chunk \<and> MMAP_ONLY_EVEN \<notin> chunk_flags chunk \<and>
         chunk_buffer chunk \<noteq> 0 \<and> MMAP_WRITE \<in> chunk_flags chunk \<and>
         m68k_write_pointers (m68k_init_cpu_m68000 H M cycles this) i
           = get_native_pointer M (of_nat (i * 65536))"
    using p unfolding m68k_init_cpu_m68000_slot(2) [OF i]
    by (rule m68k_page_pointer_installed)
next
  assume j: "j < 8" and p: "read_pointers (init_z80_context N divider io_mask) j \<noteq> 0"
  show "\<exists>chunk. find_map_chunk N (of_nat (j * 8192)) = Some chunk \<and>
         of_nat (j * 8192) + 8 * 1024 \<le> chunk_end chunk \<and>
         MMAP_PTR_IDX \<notin> chunk_flags chunk \<and>
         chunk_buffer chunk \<noteq> 0 \<and> MMAP_READ \<in> chunk_flags chunk \<and>
         read_pointers (init_z80_context N divider io_mask) j
           = get_native_pointer N (of_nat (j * 8192))"
    using p unfolding init_z80_context_slot(1) [OF j]
    by (rule z80_page_pointer_installed)
next
  assume j: "j < 8" and p: "write_pointers (init_z80_context N divider io_mask) j \<noteq> 0"
  show "\<exists>chunk. find_map_chunk N (of_nat (j * 8192)) = Some chunk \<and>
         of_nat (j * 8192) + 8 * 1024 \<le> chunk_end chunk \<and>
         MMAP_PTR_IDX \<notin> chunk_flags chunk \<and>
         chunk_buffer chunk \<noteq> 0 \<and> MMAP_WRITE \<in> chunk_flags chunk \<and>
         write_pointers (init_z80_context N divider io_mask) j
           = get_native_pointer N (of_nat (j * 8192))"
    using p unfolding init_z80_context_slot(2) [OF j]
    by (rule z80_page_pointer_installed)
qed

lemma sub_cpu_page_1:
  "m68k_page_pointer (one_chunk_map sub_cpu_prog_ram) MMAP_READ (of_nat (1 * 65536)) = 0x100100"
  "m68k_page_pointer (one_chunk_map sub_cpu_prog_ram) MMAP_WRITE (of_nat (1 * 65536)) = 0x100100"
  by (simp_all add: m68k_page_pointer_def one_chunk_map_def sub_cpu_prog_ram_def)

lemma z80_ram_page_0:
  "z80_page_pointer (one_chunk_map z80_ram) MMAP_READ (of_nat (0 * 8192)) = 0x300000"
  "z80_page_pointer (one_chunk_map z80_ram) MMAP_WRITE (of_nat (0 * 8192)) = 0x300000"
  by (simp_all add: z80_page_pointer_def one_chunk_map_def z80_ram_def)

theorem fast_path_pointer_guards_witness:
  "(1 :: nat) < 384 \<and> (0 :: nat) < 8 \<and>
   m68k_read_pointers
     (m68k_init_cpu_m68000 m68k_backend_nop (one_chunk_map sub_cpu_prog_ram) [] m68k_calloc) 1
     = 0x100100 \<and>
   m68k_write_pointers
     (m68k_init_cpu_m68000 m68k_backend_nop (one_chunk_map sub_cpu_prog_ram) [] m68k_calloc) 1
     = 0x100100 \<and>
   read_pointers (init_z80_context (one_chunk_map z80_ram) 15 0xFF) 0 = 0x300000 \<and>
   write_pointers (init_z80_context (one_chunk_map z80_ram) 15 0xFF) 0 = 0x300000 \<and>
   (\<exists>chunk. find_map_chunk (one_chunk_map sub_cpu_prog_ram) 0x10000 = Some chunk \<and>
      0x20000 \<le> chunk_end chunk \<and>
      MMAP_ONLY_ODD \<notin> chunk_flags chunk \<and> MMAP_ONLY_EVEN \<notin> chunk_flags chunk \<and>
      chunk_buffer chunk \<noteq> 0 \<and> MMAP_READ \<in> chunk_flags chunk \<and>
      get_native_pointer (one_chunk_map sub_cpu_prog_ram) 0x10000 = 0x100100) \<and>
   (\<exists>chunk. find_map_chunk (one_chunk_map sub_cpu_prog_ram) 0x10000 = Some chunk \<and>
      0x20000 \<le> chunk_end chunk \<and>
      MMAP_ONLY_ODD \<notin> chunk_flags chunk \<and> MMAP_ONLY_EVEN \<notin> chunk_flags chunk \<and>
      chunk_buffer chunk \<noteq> 0 \<and> MMAP_WRITE \<in> chunk_flags chunk \<and>
      get_native_pointer (one_chunk_map sub_cpu_prog_ram) 0x10000 = 0x100100) \<and>
   (\<exists>chunk. find_map_chunk (one_chunk_map z80_ram) 0 = Some chunk \<and>
      0x2000 \<le> chunk_end chunk \<and> MMAP_PTR_IDX \<notin> chunk_flags chunk \<and>
      chunk_buffer chunk \<noteq> 0 \<and> MMAP_READ \<in> chunk_flags chunk \<and>
      get_native_pointer (one_chunk_map z80_ram) 0 = 0x300000) \<and>
   (\<exists>chunk. find_map_chunk (one_chunk_map z80_ram) 0 = Some chunk \<and>
      0x2000 \<le> chunk_end chunk \<and> MMAP_PTR_IDX \<notin> chunk_flags chunk \<and>
      chunk_buffer chunk \<noteq> 0 \<and> MMAP_WRITE \<in> chunk_flags chunk \<and>
      get_native_pointer (one_chunk_map z80_ram) 0 = 0x300000)"
proof -
  let ?m = "m68k_init_cpu_m68000 m68k_backend_nop (one_chunk_map sub_cpu_prog_ram) []
      m68k_calloc"
  let ?z = "init_z80_context (one_chunk_map z80_ram) 15 0xFF"
  have i: "(1 :: nat) < 384" and j: "(0 :: nat) < 8"
    by simp_all
  have mr: "m68k_read_pointers ?m 1 = 0x100100"
    by (rule trans [OF m68k_init_cpu_m68000_slot(1) [OF i] sub_cpu_page_1(1)])
  have mw: "m68k_write_pointers ?m 1 = 0x100100"
    by (rule trans [OF m68k_init_cpu_m68000_slot(2) [OF i] sub_cpu_page_1(2)])
  have zr: "read_pointers ?z 0 = 0x300000"
    by (rule trans [OF init_z80_context_slot(1) [OF j] z80_ram_page_0(1)])
  have zw: "write_pointers ?z 0 = 0x300000"
    by (rule trans [OF init_z80_context_slot(2) [OF j] z80_ram_page_0(2)])
  note T = fast_path_pointer_guards [of 1 m68k_backend_nop "one_chunk_map sub_cpu_prog_ram"
      "[]" m68k_calloc 0 "one_chunk_map z80_ram" 15 "0xFF"]
  show ?thesis
    using T unfolding mr mw zr zw by simp
qed

text \<open>
  Claim C7 as the spec words it has one guard list for both cores. Each initialiser
  has its own: \<open>init_z80_context\<close> does not look at \<open>MMAP_ONLY_ODD\<close> or
  \<open>MMAP_ONLY_EVEN\<close>, and installs the pointers of a page of odd-byte RAM;
  \<open>m68k_init_cpu_m68000\<close> does not look at \<open>MMAP_PTR_IDX\<close>, and installs the
  pointers of the main CPU's program RAM window.
\<close>

theorem fast_path_pointer_guards_differ:
  "find_map_chunk (one_chunk_map odd_byte_ram) 0 = Some odd_byte_ram \<and>
   MMAP_ONLY_ODD \<in> chunk_flags odd_byte_ram \<and>
   read_pointers (init_z80_context (one_chunk_map odd_byte_ram) 15 0xFF) 0 = 0x200000 \<and>
   write_pointers (init_z80_context (one_chunk_map odd_byte_ram) 15 0xFF) 0 = 0x200000 \<and>
   find_map_chunk (one_chunk_map main_cpu_prog_ram) 0x20000 = Some main_cpu_prog_ram \<and>
   MMAP_PTR_IDX \<in> chunk_flags main_cpu_prog_ram \<and>
   m68k_read_pointers
     (m68k_init_cpu_m68000 m68k_backend_nop (one_chunk_map main_cpu_prog_ram) [] m68k_calloc) 2
     = 0x100000 \<and>
   m68k_write_pointers
     (m68k_init_cpu_m68000 m68k_backend_nop (one_chunk_map main_cpu_prog_ram) [] m68k_calloc) 2
     = 0x100000"
proof -
  have z: "z80_page_pointer (one_chunk_map odd_byte_ram) MMAP_READ (of_nat (0 * 8192)) = 0x200000"
    "z80_page_pointer (one_chunk_map odd_byte_ram) MMAP_WRITE (of_nat (0 * 8192)) = 0x200000"
    by (simp_all add: z80_page_pointer_def one_chunk_map_def odd_byte_ram_def)
  have m: "m68k_page_pointer (one_chunk_map main_cpu_prog_ram) MMAP_READ (of_nat (2 * 65536))
      = 0x100000"
    "m68k_page_pointer (one_chunk_map main_cpu_prog_ram) MMAP_WRITE (of_nat (2 * 65536))
      = 0x100000"
    by (simp_all add: m68k_page_pointer_def one_chunk_map_def main_cpu_prog_ram_def)
  have i: "(2 :: nat) < 384" and j: "(0 :: nat) < 8"
    by simp_all
  have zs: "read_pointers (init_z80_context (one_chunk_map odd_byte_ram) 15 0xFF) 0 = 0x200000"
    "write_pointers (init_z80_context (one_chunk_map odd_byte_ram) 15 0xFF) 0 = 0x200000"
    by (rule trans [OF init_z80_context_slot(1) [OF j] z(1)],
        rule trans [OF init_z80_context_slot(2) [OF j] z(2)])
  have ms: "m68k_read_pointers
     (m68k_init_cpu_m68000 m68k_backend_nop (one_chunk_map main_cpu_prog_ram) [] m68k_calloc) 2
     = 0x100000"
    "m68k_write_pointers
     (m68k_init_cpu_m68000 m68k_backend_nop (one_chunk_map main_cpu_prog_ram) [] m68k_calloc) 2
     = 0x100000"
    by (rule trans [OF m68k_init_cpu_m68000_slot(1) [OF i] m(1)],
        rule trans [OF m68k_init_cpu_m68000_slot(2) [OF i] m(2)])
  show ?thesis
    unfolding zs ms by (simp add: one_chunk_map_def odd_byte_ram_def main_cpu_prog_ram_def)
qed

subsection \<open>16-bit stores through the fast path\<close>

text \<open>
  A 64 KiB buffer at host address \<open>0x400000\<close> mapped write-only over page 0: the
  initialiser, which tests \<open>MMAP_READ\<close> and \<open>MMAP_WRITE\<close> one by one, installs it in
  \<open>write_pointers[0]\<close> and leaves \<open>read_pointers[0]\<close> null.
\<close>

definition write_only_ram :: memmap_chunk where
  "write_only_ram = \<lparr>chunk_start = 0, chunk_end = 0x10000, chunk_mask = 0xFFFF,
     chunk_flags = {MMAP_WRITE}, chunk_ptr_index = 0, chunk_buffer = 0x400000\<rparr>"

definition write_only_m68k :: m68000_base_device where
  "write_only_m68k =
     m68k_init_cpu_m68000 m68k_backend_nop (one_chunk_map write_only_ram) [] m68k_calloc"

lemma write_only_page_0:
  "m68k_page_pointer (one_chunk_map write_only_ram) MMAP_READ (of_nat (0 * 65536)) = 0"
  "m68k_page_pointer (one_chunk_map write_only_ram) MMAP_WRITE (of_nat (0 * 65536)) = 0x400000"
  by (simp_all add: m68k_page_pointer_def one_chunk_map_def write_only_ram_def)

lemma write_only_m68k_slots:
  "m68k_read_pointers write_only_m68k 0 = 0"
  "m68k_write_pointers write_only_m68k 0 = 0x400000"
proof -
  have i: "(0 :: nat) < 384"
    by simp
  show "m68k_read_pointers write_only_m68k 0 = 0"
    unfolding write_only_m68k_def
    by (rule trans [OF m68k_init_cpu_m68000_slot(1) [OF i] write_only_page_0(1)])
  show "m68k_write_pointers write_only_m68k 0 = 0x400000"
    unfolding write_only_m68k_def
    by (rule trans [OF m68k_init_cpu_m68000_slot(2) [OF i] write_only_page_0(2)])
qed

text \<open>
  Claim C2 at that context. \<open>m68ki_write_16\<close> at address \<open>0x100\<close> finds
  \<open>write_pointers[0]\<close> non-null, takes its buffer from \<open>read_pointers[0]\<close>, which is
  null, and stores through it; the byte store \<open>m68ki_write_8\<close> at the same address
  goes into the buffer of \<open>write_pointers[0]\<close>, at offset \<open>0x100 ^ 1\<close>.
\<close>

theorem m68ki_write_16_uses_read_pointers:
  "m68k_write_pointers write_only_m68k 0 = 0x400000 \<and>
   m68k_read_pointers write_only_m68k 0 = 0 \<and>
   m68ki_write_16 m68k_backend_nop write_only_m68k 0x100 0x1234 = Inl NullPointerStore \<and>
   m68ki_write_8 m68k_backend_nop write_only_m68k 0x100 0x12 =
     write_only_m68k\<lparr>m68k_host_mem := (m68k_host_mem write_only_m68k)(0x400101 := 0x12)\<rparr>"
proof -
  have b: "unat (drop_bit 16 ((0x100 :: 32 word) AND 0xFFFFFF)) = 0"
    "unat ((((0x100 :: 32 word) AND 0xFFFFFF) XOR 1) AND 0xFFFF) = 0x101"
    by simp_all
  have w16: "m68ki_write_16 m68k_backend_nop write_only_m68k 0x100 0x1234 = Inl NullPointerStore"
    unfolding m68ki_write_16_def Let_def b write_only_m68k_slots by simp
  have w8: "m68ki_write_8 m68k_backend_nop write_only_m68k 0x100 0x12 =
     write_only_m68k\<lparr>m68k_host_mem := (m68k_host_mem write_only_m68k)(0x400101 := 0x12)\<rparr>"
    unfolding m68ki_write_8_def Let_def b write_only_m68k_slots by simp
  show ?thesis
    using write_only_m68k_slots w16 w8 by simp
qed

subsection \<open>Reset of the 68000\<close>

text \<open>
  The 32-bit big-endian word at \<open>a\<close>, assembled from the four bytes that
  \<open>m68ki_read_8\<close> reads at \<open>a\<close> to \<open>a + 3\<close>.
\<close>

definition m68k_read_be32 :: "m68k_backend \<Rightarrow> m68000_base_device \<Rightarrow> 32 word \<Rightarrow> 32 word" where
  "m68k_read_be32 H m a =
     push_bit 24 (ucast (fst (m68ki_read_8 H m a))) OR
     push_bit 16 (ucast (fst (m68ki_read_8 H m (a + 1)))) OR
     push_bit 8 (ucast (fst (m68ki_read_8 H m (a + 2)))) OR
     ucast (fst (m68ki_read_8 H m (a + 3)))"

text \<open>
  The memory of the spec's scenario S1, \<open>00 00 10 00 00 00 04 00\<close> at 68k address 0
  (reset vectors \<open>SP = 0x1000\<close>, \<open>PC = 0x0400\<close>), as a 64 KiB buffer at host address
  \<open>0x1000\<close> behind the fast path, each 16-bit word in host byte order; the context
  is traced at interrupt level 3 in user mode.
\<close>

definition vectors_m68k :: m68000_base_device where
  "vectors_m68k = m68k_calloc\<lparr>
     t1_flag := 0x8000, int_mask := 0x0300, stopped := 1,
     cyc_exception := m68ki_exception_cycle_table_000, c_current_cycle := 100,
     m68k_read_pointers := (\<lambda>_. 0)(0 := 0x1000),
     m68k_host_mem := (\<lambda>_. 0)(0x1003 := 0x10, 0x1007 := 0x04)\<rparr>"

lemma m68ki_read_16_same:
  assumes "m68k_read_pointers m (unat (drop_bit 16 (a AND 0xFFFFFF))) \<noteq> 0 \<or>
           (\<forall>a s. m68k_read_word H a s = (mem a, s))"
    and "m68k_read_pointers s = m68k_read_pointers m"
    and "m68k_host_mem s = m68k_host_mem m"
  shows "m68ki_read_16 H s a = (fst (m68ki_read_16 H m a), s)"
  using assms by (auto simp add: m68ki_read_16_def Let_def)

lemma m68ki_read_imm_16_same:
  assumes "m68k_read_pointers m (unat (drop_bit 16 (pc s AND 0xFFFFFF))) \<noteq> 0 \<or>
           (\<forall>a s. m68k_read_word H a s = (mem a, s))"
    and "m68k_read_pointers s = m68k_read_pointers m"
    and "m68k_host_mem s = m68k_host_mem m"
  shows "m68ki_read_imm_16 H s = (fst (m68ki_read_16 H m (pc s)), s\<lparr>pc := pc s + 2\<rparr>)"
  unfolding m68ki_read_imm_16_def m68ki_read_16_same [OF assms] by simp

lemma vector_page:
  "unat (drop_bit 16 ((0 :: 32 word) AND 0xFFFFFF)) = 0"
  "unat (drop_bit 16 ((2 :: 32 word) AND 0xFFFFFF)) = 0"
  "unat (drop_bit 16 ((4 :: 32 word) AND 0xFFFFFF)) = 0"
  "unat (drop_bit 16 ((6 :: 32 word) AND 0xFFFFFF)) = 0"
  by simp_all

lemma m68ki_read_imm_32_vector:
  assumes src: "m68k_read_pointers m 0 \<noteq> 0 \<or> (\<forall>a s. m68k_read_word H a s = (mem a, s))"
    and same: "m68k_read_pointers s = m68k_read_pointers m" "m68k_host_mem s = m68k_host_mem m"
    and a: "pc s = a" "a = 0 \<or> a = 4"
  shows "m68ki_read_imm_32 H s =
    (push_bit 16 (ucast (fst (m68ki_read_16 H m a))) OR ucast (fst (m68ki_read_16 H m (a + 2))),
     s\<lparr>pc := a + 4\<rparr>)"
proof -
  have p1: "m68k_read_pointers m (unat (drop_bit 16 (pc s AND 0xFFFFFF))) \<noteq> 0 \<or>
      (\<forall>a s. m68k_read_word H a s = (mem a, s))"
    using src a vector_page by auto
  let ?s1 = "s\<lparr>pc := pc s + 2\<rparr>"
  have p2: "m68k_read_pointers m (unat (drop_bit 16 (pc ?s1 AND 0xFFFFFF))) \<noteq> 0 \<or>
      (\<forall>a s. m68k_read_word H a s = (mem a, s))"
    using src a vector_page by auto
  have s1: "m68k_read_pointers ?s1 = m68k_read_pointers m" "m68k_host_mem ?s1 = m68k_host_mem m"
    using same by simp_all
  show ?thesis
    unfolding m68ki_read_imm_32_def m68ki_read_imm_16_same [OF p1 same]
      split_conv Let_def m68ki_read_imm_16_same [OF p2 s1]
    using a(1) by simp
qed

lemma m68ki_set_sm_flag_reset:
  "m68k_read_pointers (m68ki_set_sm_flag m (SFLAG_SET OR MFLAG_CLEAR)) = m68k_read_pointers m"
  "m68k_host_mem (m68ki_set_sm_flag m (SFLAG_SET OR MFLAG_CLEAR)) = m68k_host_mem m"
  "s_flag (m68ki_set_sm_flag m (SFLAG_SET OR MFLAG_CLEAR)) = SFLAG_SET"
  "m_flag (m68ki_set_sm_flag m (SFLAG_SET OR MFLAG_CLEAR)) = MFLAG_CLEAR"
  "stopped (m68ki_set_sm_flag m v) = stopped m"
  "t1_flag (m68ki_set_sm_flag m v) = t1_flag m"
  "t0_flag (m68ki_set_sm_flag m v) = t0_flag m"
  "int_mask (m68ki_set_sm_flag m v) = int_mask m"
  "cyc_exception (m68ki_set_sm_flag m v) = cyc_exception m"
  "c_current_cycle (m68ki_set_sm_flag m v) = c_current_cycle m"
  by (simp_all add: m68ki_set_sm_flag_def Let_def SFLAG_SET_def MFLAG_SET_def MFLAG_CLEAR_def)

lemma m68k_reset_cpu_result:
  assumes src: "m68k_read_pointers m 0 \<noteq> 0 \<or> (\<forall>a s. m68k_read_word H a s = (mem a, s))"
    and exc: "cyc_exception m \<noteq> []"
  shows "\<exists>m'. m68k_reset_cpu H m = Some m' \<and>
      REG_SP m' = push_bit 16 (ucast (fst (m68ki_read_16 H m 0))) OR
                  ucast (fst (m68ki_read_16 H m 2)) \<and>
      pc m' = push_bit 16 (ucast (fst (m68ki_read_16 H m 4))) OR
              ucast (fst (m68ki_read_16 H m 6)) \<and>
      s_flag m' = SFLAG_SET \<and> m_flag m' = MFLAG_CLEAR \<and> stopped m' = 0 \<and>
      run_mode m' = RUN_MODE_NORMAL \<and>
      c_current_cycle m' = c_current_cycle m + ucast (cyc_exception m ! EXCEPTION_RESET) \<and>
      t1_flag m' = t1_flag m \<and> t0_flag m' = t0_flag m \<and> int_mask m' = int_mask m"
proof -
  let ?m3 = "m68ki_set_sm_flag (m\<lparr>stopped := 0, run_mode := RUN_MODE_BERR_AERR_RESET\<rparr>)
      (SFLAG_SET OR MFLAG_CLEAR)"
  let ?m5 = "m68ki_jump (?m3\<lparr>pref_addr := 0x1000\<rparr>) 0"
  let ?sp = "push_bit 16 (ucast (fst (m68ki_read_16 H m 0))) OR ucast (fst (m68ki_read_16 H m 2))"
  let ?npc = "push_bit 16 (ucast (fst (m68ki_read_16 H m 4))) OR ucast (fst (m68ki_read_16 H m 6))"
  let ?m7 = "?m5\<lparr>pc := 4, dar := (dar ?m5)(15 := ?sp)\<rparr>"
  have s5: "m68k_read_pointers ?m5 = m68k_read_pointers m" "m68k_host_mem ?m5 = m68k_host_mem m"
    "pc ?m5 = 0"
    by (simp_all add: m68ki_jump_def m68ki_set_sm_flag_reset)
  have r1: "m68ki_read_imm_32 H ?m5 = (?sp, ?m5\<lparr>pc := 4\<rparr>)"
    using m68ki_read_imm_32_vector [OF src s5(1,2) s5(3), of] by simp
  have s7: "m68k_read_pointers ?m7 = m68k_read_pointers m" "m68k_host_mem ?m7 = m68k_host_mem m"
    "pc ?m7 = 4"
    by (simp_all add: m68ki_jump_def m68ki_set_sm_flag_reset)
  have r2: "m68ki_read_imm_32 H ?m7 = (?npc, ?m7\<lparr>pc := 8\<rparr>)"
    using m68ki_read_imm_32_vector [OF src s7(1,2) s7(3), of] by simp
  have e: "cc_at (cyc_exception m) EXCEPTION_RESET = Some (ucast (cyc_exception m ! EXCEPTION_RESET))"
    using exc by (simp add: cc_at_def EXCEPTION_RESET_def)
  have fields: "cyc_exception ?m7 = cyc_exception m" "c_current_cycle ?m7 = c_current_cycle m"
    "s_flag ?m7 = SFLAG_SET" "m_flag ?m7 = MFLAG_CLEAR" "stopped ?m7 = 0"
    "t1_flag ?m7 = t1_flag m" "t0_flag ?m7 = t0_flag m" "int_mask ?m7 = int_mask m"
    by (simp_all add: m68ki_jump_def m68ki_set_sm_flag_reset)
  let ?m11 = "?m7\<lparr>pc := ?npc, run_mode := RUN_MODE_NORMAL\<rparr>"
  have run: "m68k_reset_cpu H m =
      Some (?m11\<lparr>c_current_cycle := c_current_cycle m + ucast (cyc_exception m ! EXCEPTION_RESET)\<rparr>)"
    unfolding m68k_reset_cpu_def Let_def r1 split_conv
    using r2 e fields(1,2) by (simp add: m68ki_jump_def)
  show ?thesis
    unfolding run using fields by (simp add: REG_SP_def)
qed

lemma m68k_init_int_mask:
  "int_mask (fold (\<lambda>i. m68k_init_page M (g i)) xs m) = int_mask m"
proof (induction xs arbitrary: m)
  case Nil
  show ?case by simp
next
  case (Cons x xs)
  have "int_mask (m68k_init_page M (g x) m) = int_mask m"
    by (simp add: m68k_init_page_def Let_def split: option.split)
  then show ?case
    using Cons.IH [of "m68k_init_page M (g x) m"] by simp
qed

lemma m68k_fast_be32:
  assumes "m68k_read_pointers m 0 \<noteq> 0" "a = 0 \<or> a = 4"
  shows "push_bit 16 (ucast (fst (m68ki_read_16 H m a))) OR ucast (fst (m68ki_read_16 H m (a + 2)))
           = m68k_read_be32 H m a"
proof -
  have w: "push_bit 16 (ucast (ucast lo OR push_bit 8 (ucast hi) :: 16 word)) OR
           ucast (ucast lo' OR push_bit 8 (ucast hi') :: 16 word)
         = push_bit 24 (ucast hi) OR push_bit 16 (ucast lo) OR push_bit 8 (ucast hi') OR
           (ucast lo' :: 32 word)"
    for lo hi lo' hi' :: "8 word"
    by (rule bit_word_eqI) (auto simp add: bit_simps dest: bit_imp_le_length)
  from assms(2) show ?thesis
  proof
    assume "a = 0"
    then show ?thesis
      using assms(1)
      by (simp add: m68ki_read_16_def m68ki_read_8_def m68k_read_be32_def host_load16_def w)
        (simp add: numeral_3_eq_3)
  next
    assume "a = 4"
    then show ?thesis
      using assms(1)
      by (simp add: m68ki_read_16_def m68ki_read_8_def m68k_read_be32_def host_load16_def w)
        (simp add: ac_simps)
  qed
qed

text \<open>
  Claim C3, as the code has it. Provided the vectors are read through the fast path of
  page 0 or through a map whose word reads leave the context alone, and the exception
  cycle table is in place, \<open>m68k_reset_cpu\<close> returns with \<open>SP\<close> made of the words
  read at 0 and 2 and \<open>PC\<close> of the words read at 4 and 6, the high word first (with
  the fast path: the big-endian 32-bit words of the bytes at 0 to 3 and at 4 to 7), in
  supervisor mode with M clear, not stopped, in run mode NORMAL, and with
  \<open>cyc_exception[EXCEPTION_RESET]\<close> added to \<open>current_cycle\<close>. It leaves T1, T0 and
  the interrupt mask as they were; \<open>m68k_init_cpu_m68000\<close> is what sets the mask to 7.
\<close>

theorem m68k_reset_cpu_state:
  assumes src: "m68k_read_pointers m 0 \<noteq> 0 \<or> (\<forall>a s. m68k_read_word H a s = (mem a, s))"
    and exc: "cyc_exception m \<noteq> []"
  shows "\<exists>m'. m68k_reset_cpu H m = Some m' \<and>
      REG_SP m' = push_bit 16 (ucast (fst (m68ki_read_16 H m 0))) OR
                  ucast (fst (m68ki_read_16 H m 2)) \<and>
      pc m' = push_bit 16 (ucast (fst (m68ki_read_16 H m 4))) OR
              ucast (fst (m68ki_read_16 H m 6)) \<and>
      (m68k_read_pointers m 0 \<noteq> 0 \<longrightarrow>
         REG_SP m' = m68k_read_be32 H m 0 \<and> pc m' = m68k_read_be32 H m 4) \<and>
      s_flag m' = SFLAG_SET \<and> m_flag m' = MFLAG_CLEAR \<and> stopped m' = 0 \<and>
      run_mode m' = RUN_MODE_NORMAL \<and>
      c_current_cycle m' = c_current_cycle m + ucast (cyc_exception m ! EXCEPTION_RESET) \<and>
      t1_flag m' = t1_flag m \<and> t0_flag m' = t0_flag m \<and> int_mask m' = int_mask m \<and>
      int_mask (m68k_init_cpu_m68000 H M cycles this) = push_bit 8 7"
proof -
  have i: "int_mask (m68k_init_cpu_m68000 H M cycles this) = push_bit 8 7"
    by (simp add: m68k_init_cpu_m68000_def m68k_init_pointers_def Let_def m68k_init_int_mask)
  obtain m' where m': "m68k_reset_cpu H m = Some m'"
    "REG_SP m' = push_bit 16 (ucast (fst (m68ki_read_16 H m 0))) OR
                  ucast (fst (m68ki_read_16 H m 2))"
    "pc m' = push_bit 16 (ucast (fst (m68ki_read_16 H m 4))) OR
              ucast (fst (m68ki_read_16 H m 6))"
    "s_flag m' = SFLAG_SET \<and> m_flag m' = MFLAG_CLEAR \<and> stopped m' = 0 \<and>
      run_mode m' = RUN_MODE_NORMAL \<and>
      c_current_cycle m' = c_current_cycle m + ucast (cyc_exception m ! EXCEPTION_RESET) \<and>
      t1_flag m' = t1_flag m \<and> t0_flag m' = t0_flag m \<and> int_mask m' = int_mask m"
    using m68k_reset_cpu_result [OF src exc] by blast
  have f: "m68k_read_pointers m 0 \<noteq> 0 \<longrightarrow>
      REG_SP m' = m68k_read_be32 H m 0 \<and> pc m' = m68k_read_be32 H m 4"
    using m'(2,3) m68k_fast_be32 [of m 0 H] m68k_fast_be32 [of m 4 H] by simp
  show ?thesis
    using m' f i by blast
qed

lemma vectors_m68k_be32:
  "m68k_read_be32 H vectors_m68k 0 = 0x1000" "m68k_read_be32 H vectors_m68k 4 = 0x0400"
  by (simp_all add: m68k_read_be32_def m68ki_read_8_def vectors_m68k_def m68k_calloc_def)

theorem m68k_reset_cpu_state_witness:
  "m68k_read_pointers vectors_m68k 0 \<noteq> 0 \<and> cyc_exception vectors_m68k \<noteq> [] \<and>
   (\<exists>m'. m68k_reset_cpu m68k_backend_nop vectors_m68k = Some m' \<and>
      REG_SP m' = 0x1000 \<and> pc m' = 0x0400 \<and> s_flag m' = 4 \<and> m_flag m' = 0 \<and>
      stopped m' = 0 \<and> run_mode m' = RUN_MODE_NORMAL \<and> c_current_cycle m' = 140)"
proof -
  have h: "m68k_read_pointers vectors_m68k 0 \<noteq> 0" "cyc_exception vectors_m68k \<noteq> []"
    by (simp_all add: vectors_m68k_def m68k_calloc_def m68ki_exception_cycle_table_000_def)
  have c: "c_current_cycle vectors_m68k
      + ucast (cyc_exception vectors_m68k ! EXCEPTION_RESET) = 140"
    by (simp add: vectors_m68k_def m68k_calloc_def m68ki_exception_cycle_table_000_def
        EXCEPTION_RESET_def)
  from m68k_reset_cpu_state [of vectors_m68k m68k_backend_nop "\<lambda>_. 0", OF disjI1 h(2), OF h(1)]
  obtain m' where m': "m68k_reset_cpu m68k_backend_nop vectors_m68k = Some m'"
    "m68k_read_pointers vectors_m68k 0 \<noteq> 0 \<longrightarrow>
       REG_SP m' = m68k_read_be32 m68k_backend_nop vectors_m68k 0 \<and>
       pc m' = m68k_read_be32 m68k_backend_nop vectors_m68k 4"
    "s_flag m' = SFLAG_SET" "m_flag m' = MFLAG_CLEAR" "stopped m' = 0"
    "run_mode m' = RUN_MODE_NORMAL"
    "c_current_cycle m' = c_current_cycle vectors_m68k
      + ucast (cyc_exception vectors_m68k ! EXCEPTION_RESET)"
    by blast
  from m'(2) h(1) have v: "REG_SP m' = 0x1000" "pc m' = 0x0400"
    by (simp_all add: vectors_m68k_be32)
  show ?thesis
    using h m'(1,3-6) v m'(7) [unfolded c]
    by (simp add: SFLAG_SET_def MFLAG_CLEAR_def)
qed

text \<open>
  Claim C3 as the spec words it has the reset clear T1/T0 and set the interrupt mask
  to 7. \<open>m68k_reset_cpu\<close> writes none of the three: a context traced (T1 set) at
  interrupt level 3 comes out of reset traced at level 3.
\<close>

theorem m68k_reset_cpu_keeps_trace_and_mask:
  "map_option (\<lambda>m'. (t1_flag m', int_mask m')) (m68k_reset_cpu m68k_backend_nop vectors_m68k)
     = Some (0x8000, 0x0300)"
proof -
  have h: "m68k_read_pointers vectors_m68k 0 \<noteq> 0" "cyc_exception vectors_m68k \<noteq> []"
    by (simp_all add: vectors_m68k_def m68k_calloc_def m68ki_exception_cycle_table_000_def)
  from m68k_reset_cpu_result [of vectors_m68k m68k_backend_nop "\<lambda>_. 0", OF disjI1 h(2), OF h(1)]
  obtain m' where m': "m68k_reset_cpu m68k_backend_nop vectors_m68k = Some m'"
    "t1_flag m' = t1_flag vectors_m68k" "int_mask m' = int_mask vectors_m68k"
    by blast
  show ?thesis
    unfolding m'(1) using m'(2,3) by (simp add: vectors_m68k_def m68k_calloc_def)
qed

end
